theory Spec2Isabelle
  imports Main
begin

section \<open>JavaScript values used by the journal tool\<close>

text \<open>
  Strings are lists of characters. Only the ASCII letters have a case mapping in this
  model (the keywords, channel names and patterns of the program are ASCII).
\<close>

datatype error =
    RangeError string
  | SyntaxError string
  | TypeError string
  | IOError string
  | OutsideModel string

definition lower_char :: "char \<Rightarrow> char" where
  "lower_char c =
     (case map_of (zip ''ABCDEFGHIJKLMNOPQRSTUVWXYZ'' ''abcdefghijklmnopqrstuvwxyz'') c of
        Some l \<Rightarrow> l | None \<Rightarrow> c)"

definition upper_char :: "char \<Rightarrow> char" where
  "upper_char c =
     (case map_of (zip ''abcdefghijklmnopqrstuvwxyz'' ''ABCDEFGHIJKLMNOPQRSTUVWXYZ'') c of
        Some u \<Rightarrow> u | None \<Rightarrow> c)"

definition toLowerCase :: "string \<Rightarrow> string" where
  "toLowerCase s = map lower_char s"

definition js_startsWith :: "string \<Rightarrow> string \<Rightarrow> bool" where
  "js_startsWith s p = (take (length p) s = p)"

definition js_endsWith :: "string \<Rightarrow> string \<Rightarrow> bool" where
  "js_endsWith s p = (length p \<le> length s \<and> drop (length s - length p) s = p)"

fun js_includes :: "string \<Rightarrow> string \<Rightarrow> bool" where
  "js_includes [] p = (p = [])"
| "js_includes (c # cs) p = (js_startsWith (c # cs) p \<or> js_includes cs p)"

definition padStart :: "string \<Rightarrow> nat \<Rightarrow> char \<Rightarrow> string" where
  "padStart s n c = replicate (n - length s) c @ s"

definition digit_char :: "nat \<Rightarrow> char" where
  "digit_char d = ''0123456789'' ! (d mod 10)"

fun nat_toString :: "nat \<Rightarrow> string" where
  "nat_toString n =
     (if n < 10 then [digit_char n] else nat_toString (n div 10) @ [digit_char (n mod 10)])"

declare nat_toString.simps [simp del]

definition int_toString :: "int \<Rightarrow> string" where
  "int_toString i = (if i < 0 then CHR ''-'' # nat_toString (nat (- i)) else nat_toString (nat i))"

text \<open>A JavaScript number that is an integer or \<open>NaN\<close> (\<open>None\<close>).\<close>

type_synonym jsnum = "int option"

definition num_toString :: "jsnum \<Rightarrow> string" where
  "num_toString x = (case x of None \<Rightarrow> ''NaN'' | Some i \<Rightarrow> int_toString i)"

section \<open>Dates\<close>

text \<open>
  A \<open>Date\<close> holds a time value: milliseconds since the epoch in UTC, or no value for
  \<open>Invalid Date\<close>. The functions that read the local fields of one \<open>Date\<close> take \<open>tz\<close>,
  the number of minutes that local time is ahead of UTC at that instant. A time zone with
  daylight saving gives this offset per instant (see the record \<open>zone\<close>). The calendar fields
  are those of the proleptic Gregorian calendar, computed from the local day number as the
  language standard defines them.
\<close>

type_synonym jsdate = "int option"

definition msPerDay :: int where
  "msPerDay = 86400000"

definition msPerWeek :: int where
  "msPerWeek = 604800000"

definition localDay :: "int \<Rightarrow> int \<Rightarrow> int" where
  "localDay tz t = (t + tz * 60000) div msPerDay"

definition localTimeOfDay :: "int \<Rightarrow> int \<Rightarrow> int" where
  "localTimeOfDay tz t = (t + tz * 60000) mod msPerDay"

definition localMidnight :: "int \<Rightarrow> int \<Rightarrow> int" where
  "localMidnight tz n = n * msPerDay - tz * 60000"

definition civil_from_days :: "int \<Rightarrow> int \<times> int \<times> int" where
  "civil_from_days n =
     (let z = n + 719468;
          era = z div 146097;
          doe = z - era * 146097;
          yoe = (doe - doe div 1460 + doe div 36524 - doe div 146096) div 365;
          y = yoe + era * 400;
          doy = doe - (365 * yoe + yoe div 4 - yoe div 100);
          mp = (5 * doy + 2) div 153;
          d = doy - (153 * mp + 2) div 5 + 1;
          m = (if mp < 10 then mp + 3 else mp - 9)
      in (if m \<le> 2 then y + 1 else y, m, d))"

definition days_from_civil :: "int \<Rightarrow> int \<Rightarrow> int \<Rightarrow> int" where
  "days_from_civil y m d =
     (let y' = (if m \<le> 2 then y - 1 else y);
          era = y' div 400;
          yoe = y' - era * 400;
          doy = (153 * (if m > 2 then m - 3 else m + 9) + 2) div 5 + d - 1;
          doe = yoe * 365 + yoe div 4 - yoe div 100 + doy
      in era * 146097 + doe - 719468)"

definition getFullYear :: "int \<Rightarrow> int \<Rightarrow> int" where
  "getFullYear tz t = fst (civil_from_days (localDay tz t))"

text \<open>\<open>getMonth\<close> counts from 0, as in the language.\<close>

definition getMonth :: "int \<Rightarrow> int \<Rightarrow> int" where
  "getMonth tz t = fst (snd (civil_from_days (localDay tz t))) - 1"

definition getDate :: "int \<Rightarrow> int \<Rightarrow> int" where
  "getDate tz t = snd (snd (civil_from_days (localDay tz t)))"

text \<open>Day of the week, 0 for Sunday; the epoch day was a Thursday.\<close>

definition getDay :: "int \<Rightarrow> int \<Rightarrow> int" where
  "getDay tz t = (localDay tz t + 4) mod 7"

text \<open>
  A time zone. \<open>utcOffset z t\<close> is the offset, in whole minutes, in effect at the instant
  \<open>t\<close>; \<open>localOffset z l\<close> is the offset with which a local time value \<open>l\<close> is turned
  into an instant (for a local time that a change skips or repeats, the language standard
  takes the offset before the change). In a zone without changes both are constant.
\<close>

record zone =
  utcOffset :: "int \<Rightarrow> int"
  localOffset :: "int \<Rightarrow> int"

definition fixedZone :: "int \<Rightarrow> zone" where
  "fixedZone tz = \<lparr>utcOffset = (\<lambda>t. tz), localOffset = (\<lambda>l. tz)\<rparr>"

text \<open>
  New York with the two changes of the year 2024: UTC-5 until 10 March, 07:00 UTC (local
  02:00, which becomes 03:00), then UTC-4 until 3 November, 06:00 UTC (local 02:00, which
  becomes 01:00), then UTC-5.
\<close>

definition newYork2024 :: zone where
  "newYork2024 =
     \<lparr>utcOffset = (\<lambda>t. if t < 1710054000000 then - 300
                        else if t < 1730613600000 then - 240 else - 300),
      localOffset = (\<lambda>l. if l < 1710039600000 then - 300
                          else if l < 1730599200000 then - 240 else - 300)\<rparr>"

definition localDayAt :: "zone \<Rightarrow> int \<Rightarrow> int" where
  "localDayAt z t = localDay (utcOffset z t) t"

text \<open>
  \<open>d.setDate(d.getDate() + 1)\<close>: the local time value of \<open>d\<close>, moved to the next calendar
  day with the time within the day kept, and turned back into an instant. Across a change
  of the offset the step is not 24 hours.
\<close>

definition addOneDay :: "zone \<Rightarrow> int \<Rightarrow> int" where
  "addOneDay z t =
     (let l = t + utcOffset z t * 60000 + msPerDay
      in l - localOffset z l * 60000)"

text \<open>
  \<open>new Date(s)\<close> for a string \<open>s\<close> of the shape \<open>dddd-dd-dd\<close>: a date-only form is
  read as UTC midnight. A month outside 1..12 or a day outside 1..31 gives
  \<open>Invalid Date\<close>; a day beyond the end of the month rolls over into the next month.
\<close>

definition is_digit :: "char \<Rightarrow> bool" where
  "is_digit c = (c \<in> set ''0123456789'')"

definition digit_val :: "char \<Rightarrow> int" where
  "digit_val c = int (length (takeWhile (\<lambda>d. d \<noteq> c) ''0123456789''))"

definition digits_val :: "string \<Rightarrow> int" where
  "digits_val s = foldl (\<lambda>acc c. acc * 10 + digit_val c) 0 s"

definition is_date_only :: "string \<Rightarrow> bool" where
  "is_date_only s =
     (length s = 10 \<and> list_all is_digit (take 4 s) \<and> s ! 4 = CHR ''-'' \<and>
      list_all is_digit (take 2 (drop 5 s)) \<and> s ! 7 = CHR ''-'' \<and>
      list_all is_digit (drop 8 s))"

definition parse_date_only :: "string \<Rightarrow> jsdate" where
  "parse_date_only s =
     (let y = digits_val (take 4 s); m = digits_val (take 2 (drop 5 s));
          d = digits_val (drop 8 s)
      in if is_date_only s \<and> 1 \<le> m \<and> m \<le> 12 \<and> 1 \<le> d \<and> d \<le> 31
         then Some ((days_from_civil y m 1 + d - 1) * msPerDay) else None)"

text \<open>
  The argument of \<open>new Date(date)\<close> in the storage layer: a \<open>Date\<close> object (copied) or
  a string. The callers in this program pass \<open>Date\<close> objects and \<open>yyyy-MM-dd\<close> strings;
  other string formats are not modelled and read as \<open>Invalid Date\<close> here.
\<close>

datatype date_arg = DateObj jsdate | DateStr string

definition new_Date :: "date_arg \<Rightarrow> jsdate" where
  "new_Date a = (case a of DateObj d \<Rightarrow> d | DateStr s \<Rightarrow> parse_date_only s)"

subsection \<open>The date library's functions\<close>

text \<open>
  \<open>addLeadingZeros\<close>, the \<open>y\<close>, \<open>M\<close> and \<open>d\<close> formatters and \<open>format\<close> of the date
  library. \<open>format\<close> throws a \<open>RangeError\<close> on an invalid date. Of the pattern language
  only the pattern \<open>yyyy-MM-dd\<close> is modelled (the one the program uses, and the default of
  \<open>journal.dateFormat\<close>).
\<close>

definition addLeadingZeros :: "int \<Rightarrow> nat \<Rightarrow> string" where
  "addLeadingZeros number targetLength =
     (if number < 0 then ''-'' else []) @
     padStart (nat_toString (nat \<bar>number\<bar>)) targetLength CHR ''0''"

definition format_yyyy_MM_dd :: "int \<Rightarrow> int \<Rightarrow> string" where
  "format_yyyy_MM_dd tz t =
     (let signedYear = getFullYear tz t;
          year = (if signedYear > 0 then signedYear else 1 - signedYear)
      in addLeadingZeros year 4 @ ''-'' @ addLeadingZeros (getMonth tz t + 1) 2 @ ''-'' @
         addLeadingZeros (getDate tz t) 2)"

definition format :: "int \<Rightarrow> jsdate \<Rightarrow> string \<Rightarrow> error + string" where
  "format tz d pattern =
     (case d of
        None \<Rightarrow> Inl (RangeError ''Invalid time value'')
      | Some t \<Rightarrow>
          if pattern = ''yyyy-MM-dd'' then Inr (format_yyyy_MM_dd tz t)
          else Inl (OutsideModel ''format pattern''))"

text \<open>\<open>getYear\<close> is the local calendar year, \<open>NaN\<close> for an invalid date.\<close>

definition getYear :: "int \<Rightarrow> jsdate \<Rightarrow> jsnum" where
  "getYear tz d = map_option (getFullYear tz) d"

text \<open>
  \<open>startOfWeek\<close>, \<open>getWeekYear\<close>, \<open>startOfWeekYear\<close> and \<open>getWeek\<close> with the option
  \<open>weekStartsOn\<close> and the library's default \<open>firstWeekContainsDate = 1\<close>: week 1 is the
  week that contains 1 January.
\<close>

definition startOfWeek :: "int \<Rightarrow> int \<Rightarrow> int \<Rightarrow> int" where
  "startOfWeek tz weekStartsOn t =
     (let day = getDay tz t;
          diff = (if day < weekStartsOn then 7 else 0) + day - weekStartsOn
      in localMidnight tz (localDay tz t - diff))"

definition getWeekYear :: "int \<Rightarrow> int \<Rightarrow> int \<Rightarrow> int" where
  "getWeekYear tz weekStartsOn t =
     (let year = getFullYear tz t;
          firstWeekOfNextYear = localMidnight tz (days_from_civil (year + 1) 1 1);
          startOfNextYear = startOfWeek tz weekStartsOn firstWeekOfNextYear;
          firstWeekOfThisYear = localMidnight tz (days_from_civil year 1 1);
          startOfThisYear = startOfWeek tz weekStartsOn firstWeekOfThisYear
      in if t \<ge> startOfNextYear then year + 1
         else if t \<ge> startOfThisYear then year
         else year - 1)"

definition startOfWeekYear :: "int \<Rightarrow> int \<Rightarrow> int \<Rightarrow> int" where
  "startOfWeekYear tz weekStartsOn t =
     (let year = getWeekYear tz weekStartsOn t;
          firstWeek = localMidnight tz (days_from_civil year 1 1)
      in startOfWeek tz weekStartsOn firstWeek)"

text \<open>\<open>Math.round(diff / millisecondsInWeek) + 1\<close>, with the rounding written on integers.\<close>

definition getWeek :: "int \<Rightarrow> int \<Rightarrow> jsdate \<Rightarrow> jsnum" where
  "getWeek tz weekStartsOn d =
     (case d of
        None \<Rightarrow> None
      | Some t \<Rightarrow>
          (let diff = startOfWeek tz weekStartsOn t - startOfWeekYear tz weekStartsOn t
           in Some ((2 * diff + msPerWeek) div (2 * msPerWeek) + 1)))"

subsection \<open>Built-in date strings\<close>

definition toDateString :: "int \<Rightarrow> jsdate \<Rightarrow> string" where
  "toDateString tz d =
     (case d of
        None \<Rightarrow> ''Invalid Date''
      | Some t \<Rightarrow>
          (let y = getFullYear tz t
           in [''Sun'', ''Mon'', ''Tue'', ''Wed'', ''Thu'', ''Fri'', ''Sat''] ! nat (getDay tz t) @ '' '' @
              [''Jan'', ''Feb'', ''Mar'', ''Apr'', ''May'', ''Jun'', ''Jul'', ''Aug'', ''Sep'', ''Oct'',
               ''Nov'', ''Dec''] ! nat (getMonth tz t) @ '' '' @
              padStart (int_toString (getDate tz t)) 2 CHR ''0'' @ '' '' @
              (if y < 0 then ''-'' else []) @ padStart (nat_toString (nat \<bar>y\<bar>)) 4 CHR ''0''))"

text \<open>
  \<open>toISOString\<close>: the UTC fields; it throws a \<open>RangeError\<close> on an invalid date. Years
  outside 0..9999 are written with a sign and six digits.
\<close>

definition toISOString :: "jsdate \<Rightarrow> error + string" where
  "toISOString d =
     (case d of
        None \<Rightarrow> Inl (RangeError ''Invalid time value'')
      | Some t \<Rightarrow>
          (let y = getFullYear 0 t; ms = localTimeOfDay 0 t
           in Inr ((if 0 \<le> y \<and> y \<le> 9999 then padStart (nat_toString (nat y)) 4 CHR ''0''
                    else (if y < 0 then ''-'' else ''+'') @
                         padStart (nat_toString (nat \<bar>y\<bar>)) 6 CHR ''0'') @ ''-'' @
                   padStart (int_toString (getMonth 0 t + 1)) 2 CHR ''0'' @ ''-'' @
                   padStart (int_toString (getDate 0 t)) 2 CHR ''0'' @ ''T'' @
                   padStart (int_toString (ms div 3600000)) 2 CHR ''0'' @ '':'' @
                   padStart (int_toString (ms div 60000 mod 60)) 2 CHR ''0'' @ '':'' @
                   padStart (int_toString (ms div 1000 mod 60)) 2 CHR ''0'' @ ''.'' @
                   padStart (int_toString (ms mod 1000)) 3 CHR ''0'' @ ''Z'')))"

section \<open>JSON values and objects\<close>

text \<open>
  The values that \<open>readJson\<close> returns and \<open>writeJson\<close> stores. An object is the list of
  its properties in insertion order; a property is read with \<open>map_of\<close> and written with
  \<open>obj_set\<close>, which overwrites in place or appends. Numbers are integers here, and the
  engine's reordering of integer-like keys is not modelled.
\<close>

datatype json =
    JNull
  | JBool bool
  | JNum int
  | JStr string
  | JArr "json list"
  | JObj "(string \<times> json) list"

type_synonym obj = "(string \<times> json) list"

fun obj_set :: "string \<Rightarrow> 'v \<Rightarrow> (string \<times> 'v) list \<Rightarrow> (string \<times> 'v) list" where
  "obj_set k v [] = [(k, v)]"
| "obj_set k v (p # ps) = (if fst p = k then (k, v) # ps else p # obj_set k v ps)"

definition truthy :: "json \<Rightarrow> bool" where
  "truthy v =
     (case v of JNull \<Rightarrow> False | JBool b \<Rightarrow> b | JNum n \<Rightarrow> n \<noteq> 0 | JStr s \<Rightarrow> s \<noteq> []
      | JArr xs \<Rightarrow> True | JObj kvs \<Rightarrow> True)"

definition indexed :: "json list \<Rightarrow> obj" where
  "indexed xs = zip (map nat_toString [0..<length xs]) xs"

text \<open>
  The own enumerable properties of a value, which an object spread \<open>{...v}\<close> copies;
  \<open>None\<close> is \<open>undefined\<close>.
\<close>

definition own_props :: "json option \<Rightarrow> obj" where
  "own_props v =
     (case v of
        Some (JObj kvs) \<Rightarrow> kvs
      | Some (JArr xs) \<Rightarrow> indexed xs
      | Some (JStr s) \<Rightarrow> indexed (map (\<lambda>c. JStr [c]) s)
      | _ \<Rightarrow> [])"

definition assign :: "obj \<Rightarrow> obj \<Rightarrow> obj" where
  "assign target src = fold (\<lambda>p acc. obj_set (fst p) (snd p) acc) src target"

text \<open>Reading a property \<open>v[k]\<close>; on \<open>null\<close> it throws.\<close>

definition js_prop :: "json \<Rightarrow> string \<Rightarrow> error + json option" where
  "js_prop v k =
     (case v of
        JNull \<Rightarrow> Inl (TypeError ''Cannot read properties of null'')
      | JObj kvs \<Rightarrow> Inr (map_of kvs k)
      | JArr xs \<Rightarrow>
          Inr (if k = ''length'' then Some (JNum (int (length xs))) else map_of (indexed xs) k)
      | JStr s \<Rightarrow>
          Inr (if k = ''length'' then Some (JNum (int (length s)))
               else map_of (indexed (map (\<lambda>c. JStr [c]) s)) k)
      | _ \<Rightarrow> Inr None)"

text \<open>
  The members that every object inherits, with the text that each gives when it is turned
  into a string. Reading a property under a name that an object does not own finds these.
\<close>

definition inheritedMember :: "string \<Rightarrow> string option" where
  "inheritedMember name =
     map_of
       [(''constructor'', ''function Object() { [native code] }''),
        (''__defineGetter__'', ''function __defineGetter__() { [native code] }''),
        (''__defineSetter__'', ''function __defineSetter__() { [native code] }''),
        (''hasOwnProperty'', ''function hasOwnProperty() { [native code] }''),
        (''__lookupGetter__'', ''function __lookupGetter__() { [native code] }''),
        (''__lookupSetter__'', ''function __lookupSetter__() { [native code] }''),
        (''isPrototypeOf'', ''function isPrototypeOf() { [native code] }''),
        (''propertyIsEnumerable'', ''function propertyIsEnumerable() { [native code] }''),
        (''toString'', ''function toString() { [native code] }''),
        (''valueOf'', ''function valueOf() { [native code] }''),
        (''__proto__'', ''[object Object]''),
        (''toLocaleString'', ''function toLocaleString() { [native code] }'')] name"

text \<open>
  The assignment \<open>o[k] = v\<close> to an object. Under the key \<open>__proto__\<close>, when the object
  does not own such a property, it sets the prototype and adds no property; the prototype is
  not part of the value here.
\<close>

definition js_set :: "string \<Rightarrow> 'v \<Rightarrow> (string \<times> 'v) list \<Rightarrow> (string \<times> 'v) list" where
  "js_set k v ps = (if k = ''__proto__'' \<and> map_of ps k = None then ps else obj_set k v ps)"

section \<open>The file store\<close>

text \<open>
  A path is the list of its components, and \<open>path.join\<close> appends components. The store
  maps the paths of regular files to their contents; a directory is present when a file
  lies beneath it, so creating a directory and then writing into it needs no entry of its
  own, and creating it fails only when a regular file is in the way. The directories that
  are present with no file beneath them (made when the program starts) are listed apart, as
  \<open>dirs\<close>, for the operations that do not create the directory they use. A file holds JSON
  or text that does not parse as JSON.
\<close>

datatype fsfile = JsonFile json | TextFile string

type_synonym path = "string list"

type_synonym fs = "(path \<times> fsfile) list"

definition is_prefix :: "path \<Rightarrow> path \<Rightarrow> bool" where
  "is_prefix p q = (take (length p) q = p)"

definition pathExists :: "fs \<Rightarrow> path \<Rightarrow> bool" where
  "pathExists fs p = list_ex (\<lambda>e. is_prefix p (fst e)) fs"

definition ensureDir :: "fs \<Rightarrow> path \<Rightarrow> error + unit" where
  "ensureDir fs dir =
     (if list_ex (\<lambda>e. is_prefix (fst e) dir) fs then Inl (IOError ''EEXIST'') else Inr ())"

definition readJson :: "fs \<Rightarrow> path \<Rightarrow> error + json" where
  "readJson fs p =
     (case map_of fs p of
        Some (JsonFile j) \<Rightarrow> Inr j
      | Some (TextFile s) \<Rightarrow> Inl (SyntaxError ''Unexpected token in JSON'')
      | None \<Rightarrow> Inl (IOError ''ENOENT or EISDIR''))"

text \<open>
  A file cannot be written at \<open>p\<close> when a regular file lies on the way to \<open>p\<close> or
  \<open>p\<close> is a directory.
\<close>

definition pathBlocked :: "fs \<Rightarrow> path \<Rightarrow> bool" where
  "pathBlocked fs p =
     list_ex (\<lambda>e. fst e \<noteq> p \<and> (is_prefix (fst e) p \<or> is_prefix p (fst e))) fs"

definition writeFile :: "fs \<Rightarrow> path \<Rightarrow> fsfile \<Rightarrow> error + fs" where
  "writeFile fs p f =
     (if pathBlocked fs p then Inl (IOError ''ENOTDIR or EISDIR'')
      else Inr ((p, f) # filter (\<lambda>e. fst e \<noteq> p) fs))"

definition readFile :: "fs \<Rightarrow> path \<Rightarrow> error + fsfile" where
  "readFile fs p =
     (case map_of fs p of None \<Rightarrow> Inl (IOError ''ENOENT or EISDIR'') | Some f \<Rightarrow> Inr f)"

text \<open>
  A directory is present when it is the working directory, is listed in \<open>dirs\<close> or lies
  above a listed directory, or has a file beneath it.
\<close>

definition dirPresent :: "path list \<Rightarrow> fs \<Rightarrow> path \<Rightarrow> bool" where
  "dirPresent dirs fs d =
     (d = [] \<or> list_ex (\<lambda>q. is_prefix d q) dirs \<or>
      list_ex (\<lambda>e. is_prefix d (fst e) \<and> fst e \<noteq> d) fs)"

text \<open>\<open>writeJson\<close> does not create the directory of the file; without it the write fails.\<close>

definition writeJson :: "path list \<Rightarrow> fs \<Rightarrow> path \<Rightarrow> json \<Rightarrow> error + fs" where
  "writeJson dirs fs p j =
     (if \<not> dirPresent dirs fs (butlast p) then Inl (IOError ''ENOENT'')
      else writeFile fs p (JsonFile j))"

text \<open>
  The names directly inside a directory, files and subdirectories alike; reading a
  directory that is not present fails.
\<close>

definition readdir :: "path list \<Rightarrow> fs \<Rightarrow> path \<Rightarrow> error + string list" where
  "readdir dirs fs dir =
     (if \<not> dirPresent dirs fs dir then Inl (IOError ''ENOENT'')
      else Inr (remdups
             (map (\<lambda>q. q ! length dir)
                (filter (\<lambda>q. is_prefix dir q \<and> length dir < length q) (map fst fs @ dirs)))))"

text \<open>
  \<open>move(src, dest)\<close> without the overwrite option: it fails when the source is missing or
  the destination exists, and otherwise renames the file or the whole directory.
\<close>

definition move :: "fs \<Rightarrow> path \<Rightarrow> path \<Rightarrow> error + fs" where
  "move fs src dest =
     (if \<not> pathExists fs src then Inl (IOError ''ENOENT'')
      else if pathExists fs dest then Inl (IOError ''dest already exists.'')
      else Inr (map (\<lambda>e. (if is_prefix src (fst e) then dest @ drop (length src) (fst e)
                           else fst e, snd e)) fs))"

section \<open>Storage service\<close>

record config =
  dataDir :: path
  syncStateFile :: path
  rawDataDir :: path
  outputDir :: path
  dateFormat :: string

definition getDailyJournalPath :: "config \<Rightarrow> int \<Rightarrow> jsdate \<Rightarrow> path" where
  "getDailyJournalPath cfg tz date =
     (let year = getYear tz date;
          week = getWeek tz 1 date;
          weekFolder = ''week-'' @ padStart (num_toString week) 2 CHR ''0''
      in outputDir cfg @ [''daily'', num_toString year, weekFolder])"

definition getReportPath :: "config \<Rightarrow> int \<Rightarrow> string \<Rightarrow> jsdate \<Rightarrow> string \<Rightarrow> path" where
  "getReportPath cfg tz type date fileName =
     (let year = getYear tz date
      in outputDir cfg @ [''reports'', type, num_toString year, fileName])"

text \<open>
  \<open>getSyncState(integration = null)\<close>: the whole state, or one integration's entry. Any
  error while reading gives the empty object. For an integration name that the state does
  not own and every object inherits, the source returns the inherited member, which is no
  JSON value; that call, and a keyed read of a state that is no object, are outside this
  model.
\<close>

definition getSyncState :: "config \<Rightarrow> fs \<Rightarrow> string option \<Rightarrow> error + json" where
  "getSyncState cfg fs integration =
     (case (if pathExists fs (syncStateFile cfg) then readJson fs (syncStateFile cfg)
            else Inr (JObj [])) of
        Inl e \<Rightarrow> Inr (JObj [])
      | Inr syncState \<Rightarrow>
          (case integration of
             None \<Rightarrow> Inr syncState
           | Some i \<Rightarrow>
               if i = [] then Inr syncState
               else (case syncState of
                       JNull \<Rightarrow> Inr (JObj [])
                     | JObj kvs \<Rightarrow>
                         (case map_of kvs i of
                            Some v \<Rightarrow> Inr (if truthy v then v else JObj [])
                          | None \<Rightarrow>
                              if inheritedMember i \<noteq> None
                              then Inl (OutsideModel ''inherited member'')
                              else Inr (JObj []))
                     | _ \<Rightarrow> Inl (OutsideModel ''sync state is not an object''))))"

text \<open>
  \<open>setSyncState(integration, state)\<close>; \<open>now\<close> is the clock reading
  \<open>new Date().toISOString()\<close>. The result is the new store and the entry returned.
  The file is written with \<open>writeJson\<close>, with no call that creates its directory.
  Assigning a property to a primitive throws in a module; a sync state that is an array is
  outside this model.
\<close>

definition setSyncState ::
    "config \<Rightarrow> string \<Rightarrow> path list \<Rightarrow> fs \<Rightarrow> string \<Rightarrow> json \<Rightarrow> error + (fs \<times> json)" where
  "setSyncState cfg now dirs fs integration state =
     (case getSyncState cfg fs None of
        Inl e \<Rightarrow> Inl e
      | Inr (JObj currentState) \<Rightarrow>
          (let entry =
                 obj_set ''lastSync'' (JStr now)
                   (assign (assign [] (own_props (map_of currentState integration)))
                      (own_props (Some state)))
           in case writeJson dirs fs (syncStateFile cfg)
                     (JObj (js_set integration (JObj entry) currentState)) of
                Inl e \<Rightarrow> Inl e
              | Inr fs' \<Rightarrow> Inr (fs', JObj entry))
      | Inr JNull \<Rightarrow> Inl (TypeError ''Cannot read properties of null'')
      | Inr (JArr xs) \<Rightarrow> Inl (OutsideModel ''sync state is an array'')
      | Inr other \<Rightarrow> Inl (TypeError ''Cannot create property''))"

text \<open>
  \<open>saveRawData(integration, date, data)\<close>; \<open>now\<close> is the clock reading. The result is
  the new store and the path written.
\<close>

definition saveRawData ::
    "config \<Rightarrow> int \<Rightarrow> string \<Rightarrow> fs \<Rightarrow> string \<Rightarrow> date_arg \<Rightarrow> json \<Rightarrow> error + (fs \<times> path)" where
  "saveRawData cfg tz now fs integration date data =
     (case format tz (new_Date date) ''yyyy-MM-dd'' of
        Inl e \<Rightarrow> Inl e
      | Inr dateStr \<Rightarrow>
          (let integrationDir = rawDataDir cfg @ [integration]
           in case ensureDir fs integrationDir of
                Inl e \<Rightarrow> Inl e
              | Inr u \<Rightarrow>
                  (let filePath = integrationDir @ [dateStr @ ''.json'']
                   in case (if pathExists fs filePath then readJson fs filePath
                            else Inr (JObj [])) of
                        Inl e \<Rightarrow> Inl e
                      | Inr existingData \<Rightarrow>
                          (let mergedData =
                                 obj_set ''data''
                                   (case data of JArr xs \<Rightarrow> JArr xs | _ \<Rightarrow> JArr [data])
                                   (obj_set ''timestamp'' (JStr now)
                                      (assign [] (own_props (Some existingData))))
                           in case writeFile fs filePath (JsonFile (JObj mergedData)) of
                                Inl e \<Rightarrow> Inl e
                              | Inr fs' \<Rightarrow> Inr (fs', filePath)))))"

text \<open>\<open>getRawData(integration, date)\<close>: the parsed file, or \<open>null\<close>.\<close>

definition getRawData :: "config \<Rightarrow> int \<Rightarrow> fs \<Rightarrow> string \<Rightarrow> date_arg \<Rightarrow> json" where
  "getRawData cfg tz fs integration date =
     (case format tz (new_Date date) ''yyyy-MM-dd'' of
        Inl e \<Rightarrow> JNull
      | Inr dateStr \<Rightarrow>
          (let filePath = rawDataDir cfg @ [integration, dateStr @ ''.json'']
           in if pathExists fs filePath
              then (case readJson fs filePath of Inl e \<Rightarrow> JNull | Inr j \<Rightarrow> j)
              else JNull))"

text \<open>\<open>saveJournal(date, content)\<close>, called with a \<open>Date\<close> object.\<close>

definition saveJournal :: "config \<Rightarrow> int \<Rightarrow> fs \<Rightarrow> jsdate \<Rightarrow> string \<Rightarrow> error + (fs \<times> path)" where
  "saveJournal cfg tz fs date content =
     (case format tz date (dateFormat cfg) of
        Inl e \<Rightarrow> Inl e
      | Inr dateStr \<Rightarrow>
          (let fileName = dateStr @ ''.md'';
               journalDir = getDailyJournalPath cfg tz date
           in case ensureDir fs journalDir of
                Inl e \<Rightarrow> Inl e
              | Inr u \<Rightarrow>
                  (let filePath = journalDir @ [fileName]
                   in case writeFile fs filePath (TextFile content) of
                        Inl e \<Rightarrow> Inl e
                      | Inr fs' \<Rightarrow> Inr (fs', filePath))))"

text \<open>
  \<open>getJournal(date)\<close>, called with a \<open>Date\<close> object: the journal in the nested layout,
  else the one in the old flat location, else \<open>null\<close>.
\<close>

definition getJournal :: "config \<Rightarrow> int \<Rightarrow> fs \<Rightarrow> jsdate \<Rightarrow> fsfile option" where
  "getJournal cfg tz fs date =
     (case format tz date (dateFormat cfg) of
        Inl e \<Rightarrow> None
      | Inr dateStr \<Rightarrow>
          (let fileName = dateStr @ ''.md'';
               journalDir = getDailyJournalPath cfg tz date;
               filePath = journalDir @ [fileName]
           in if pathExists fs filePath
              then (case readFile fs filePath of Inl e \<Rightarrow> None | Inr c \<Rightarrow> Some c)
              else (let oldFilePath = outputDir cfg @ [fileName]
                    in if pathExists fs oldFilePath
                       then (case readFile fs oldFilePath of Inl e \<Rightarrow> None | Inr c \<Rightarrow> Some c)
                       else None)))"

subsection \<open>Migration of the flat layout\<close>

text \<open>
  The two file-name patterns: \<open>/^\d{4}-\d{2}-\d{2}\.md$/\<close>, and the unanchored
  \<open>/weekly-report-(\d{4}-\d{2}-\d{2})\.md$/\<close>, which gives the captured date.
\<close>

definition dailyMatch :: "string \<Rightarrow> string option" where
  "dailyMatch f =
     (if length f = 13 \<and> is_date_only (take 10 f) \<and> drop 10 f = ''.md''
      then Some (take 10 f) else None)"

definition weeklyMatch :: "string \<Rightarrow> string option" where
  "weeklyMatch f =
     (let suf = drop (length f - 27) f
      in if 27 \<le> length f \<and> take 14 suf = ''weekly-report-'' \<and>
            is_date_only (take 10 (drop 14 suf)) \<and> drop 24 suf = ''.md''
         then Some (take 10 (drop 14 suf)) else None)"

text \<open>
  The body of each loop: a failure of \<open>ensureDir\<close> or \<open>move\<close> is caught and logged, and
  the loop goes on with the next file.
\<close>

definition migrateJournal :: "config \<Rightarrow> int \<Rightarrow> string \<Rightarrow> fs \<times> nat \<Rightarrow> fs \<times> nat" where
  "migrateJournal cfg tz fileName st =
     (case dailyMatch fileName of
        None \<Rightarrow> st
      | Some dateText \<Rightarrow>
          (let date = parse_date_only dateText;
               newDir = getDailyJournalPath cfg tz date
           in case ensureDir (fst st) newDir of
                Inl e \<Rightarrow> st
              | Inr u \<Rightarrow>
                  (let oldPath = outputDir cfg @ [fileName];
                       newPath = newDir @ [fileName]
                   in case move (fst st) oldPath newPath of
                        Inl e \<Rightarrow> st
                      | Inr fs' \<Rightarrow> (fs', snd st + 1))))"

definition migrateWeeklyReport :: "config \<Rightarrow> int \<Rightarrow> string \<Rightarrow> fs \<times> nat \<Rightarrow> fs \<times> nat" where
  "migrateWeeklyReport cfg tz fileName st =
     (case weeklyMatch fileName of
        None \<Rightarrow> st
      | Some dateText \<Rightarrow>
          (let date = parse_date_only dateText;
               reportPath = getReportPath cfg tz ''weekly'' date fileName
           in case ensureDir (fst st) (butlast reportPath) of
                Inl e \<Rightarrow> st
              | Inr u \<Rightarrow>
                  (case move (fst st) (outputDir cfg @ [fileName]) reportPath of
                     Inl e \<Rightarrow> st
                   | Inr fs' \<Rightarrow> (fs', snd st + 1))))"

text \<open>
  \<open>migrateExistingJournals()\<close>: the new store and the number of files moved; a failure
  to list the output directory is thrown again.
\<close>

definition migrateExistingJournals ::
    "config \<Rightarrow> int \<Rightarrow> path list \<Rightarrow> fs \<Rightarrow> error + (fs \<times> nat)" where
  "migrateExistingJournals cfg tz dirs fs =
     (let baseDir = outputDir cfg
      in case readdir dirs fs baseDir of
           Inl e \<Rightarrow> Inl e
         | Inr files \<Rightarrow>
             (let journalFiles =
                    filter (\<lambda>file. js_endsWith file ''.md'' \<and> dailyMatch file \<noteq> None \<and>
                                    \<not> js_startsWith file ''weekly-report-'' \<and>
                                    \<not> js_startsWith file ''monthly-report-'' \<and>
                                    \<not> js_startsWith file ''quarterly-report-'') files;
                  st1 = fold (migrateJournal cfg tz) journalFiles (fs, 0);
                  weeklyReports =
                    filter (\<lambda>file. js_startsWith file ''weekly-report-'' \<and>
                                    js_endsWith file ''.md'') files
              in Inr (fold (migrateWeeklyReport cfg tz) weeklyReports st1)))"

section \<open>Exclusion patterns\<close>

text \<open>
  \<open>s.replace(pat, rep)\<close> with a string pattern replaces the first occurrence only;
  \<open>s.replace(/\*/g, '.*')\<close> replaces every star.
\<close>

fun replaceFirst :: "string \<Rightarrow> string \<Rightarrow> string \<Rightarrow> string" where
  "replaceFirst [] pat rep = (if pat = [] then rep else [])"
| "replaceFirst (c # cs) pat rep =
     (if js_startsWith (c # cs) pat then rep @ drop (length pat) (c # cs)
      else c # replaceFirst cs pat rep)"

definition replaceAllStars :: "string \<Rightarrow> string" where
  "replaceAllStars s = concat (map (\<lambda>c. if c = CHR ''*'' then ''.*'' else [c]) s)"

text \<open>
  The fragment of the regular-expression language that these patterns produce: literal
  characters, the dot, and a star after either. A star with nothing to repeat is the
  engine's \<open>SyntaxError\<close>; the other special characters are outside this model. Matching
  is unanchored and, with the flag \<open>i\<close>, compares characters by their upper case; the dot
  matches any character but a line terminator.
\<close>

datatype atom = Lit char | AnyChar

datatype piece = One atom | Many atom

definition outside_fragment :: "char \<Rightarrow> bool" where
  "outside_fragment c = (c \<in> set ''^$+?()[]{}|'' \<or> c = CHR 0x5C)"

fun parseRegex :: "string \<Rightarrow> error + piece list" where
  "parseRegex [] = Inr []"
| "parseRegex (c # cs) =
     (if c = CHR ''*'' then Inl (SyntaxError ''Nothing to repeat'')
      else if outside_fragment c then Inl (OutsideModel ''regular expression syntax'')
      else (let a = (if c = CHR ''.'' then AnyChar else Lit c)
            in case cs of
                 [] \<Rightarrow> Inr [One a]
               | d # rest \<Rightarrow>
                   if d = CHR ''*''
                   then (case parseRegex rest of Inl e \<Rightarrow> Inl e | Inr ps \<Rightarrow> Inr (Many a # ps))
                   else (case parseRegex cs of Inl e \<Rightarrow> Inl e | Inr ps \<Rightarrow> Inr (One a # ps))))"

definition atom_ok :: "atom \<Rightarrow> char \<Rightarrow> bool" where
  "atom_ok a c =
     (case a of
        Lit l \<Rightarrow> upper_char l = upper_char c
      | AnyChar \<Rightarrow> c \<noteq> CHR 0x0A \<and> c \<noteq> CHR 0x0D)"

fun match_here :: "piece list \<Rightarrow> string \<Rightarrow> bool" where
  "match_here [] s = True"
| "match_here (One a # ps) [] = False"
| "match_here (One a # ps) (c # cs) = (atom_ok a c \<and> match_here ps cs)"
| "match_here (Many a # ps) [] = match_here ps []"
| "match_here (Many a # ps) (c # cs) =
     (match_here ps (c # cs) \<or> (atom_ok a c \<and> match_here (Many a # ps) cs))"

fun search_from :: "piece list \<Rightarrow> string \<Rightarrow> bool" where
  "search_from ps [] = match_here ps []"
| "search_from ps (c # cs) = (match_here ps (c # cs) \<or> search_from ps cs)"

text \<open>\<open>new RegExp(source, 'i').test(s)\<close>\<close>

definition regexTest :: "string \<Rightarrow> string \<Rightarrow> error + bool" where
  "regexTest source s =
     (case parseRegex source of Inl e \<Rightarrow> Inl e | Inr ps \<Rightarrow> Inr (search_from ps s))"

text \<open>
  The source text of the regular expression that each connector builds from an exclusion
  pattern: the chat and the source-control connector call \<open>replace('*', '.*')\<close>, the
  calendar connector calls \<open>replace(/\*/g, '.*')\<close>.
\<close>

definition slackPatternSource :: "string \<Rightarrow> string" where
  "slackPatternSource pattern = replaceFirst pattern ''*'' ''.*''"

definition githubPatternSource :: "string \<Rightarrow> string" where
  "githubPatternSource pattern = replaceFirst pattern ''*'' ''.*''"

definition gcalPatternSource :: "string \<Rightarrow> string" where
  "gcalPatternSource pattern = replaceAllStars pattern"

text \<open>
  \<open>patterns.some(pattern => regex.test(name))\<close>: it stops at the first pattern that
  matches, and an exception from a pattern reached before that propagates.
\<close>

fun somePattern :: "(string \<Rightarrow> string) \<Rightarrow> string list \<Rightarrow> string \<Rightarrow> error + bool" where
  "somePattern src [] name = Inr False"
| "somePattern src (pattern # ps) name =
     (case regexTest (src pattern) name of
        Inl e \<Rightarrow> Inl e
      | Inr b \<Rightarrow> if b then Inr True else somePattern src ps name)"

section \<open>Chat connector: message filter\<close>

record slack_config =
  minMessageLength :: int
  excludeChannels :: "string list"
  excludeChannelPatterns :: "string list"
  trackDMs :: bool

text \<open>The activity that \<open>processSearchMessage\<close> produces.\<close>

record message =
  m_type :: string
  m_channel :: string
  m_channelId :: string
  m_timestamp :: string
  m_text :: string
  m_user :: string
  m_threadTs :: "string option"
  m_permalink :: string
  m_intent :: "string list"
  m_searchScore :: int

definition shouldIncludeMessage :: "slack_config \<Rightarrow> message \<Rightarrow> error + bool" where
  "shouldIncludeMessage cfg message =
     (if int (length (m_text message)) < minMessageLength cfg then Inr False
      else if m_channel message \<in> set (excludeChannels cfg) then Inr False
      else (case somePattern slackPatternSource (excludeChannelPatterns cfg)
                   (m_channel message) of
              Inl e \<Rightarrow> Inl e
            | Inr matched \<Rightarrow>
                if matched then Inr False
                else if \<not> trackDMs cfg \<and> m_type message = ''direct_message'' then Inr False
                else Inr True))"

section \<open>Source-control connector: repository filter\<close>

record github_config =
  excludeRepos :: "string list"
  excludeRepoPatterns :: "string list"

record github_activity =
  repository :: string

fun filterRepositories ::
    "github_config \<Rightarrow> 'a github_activity_scheme list \<Rightarrow> error + 'a github_activity_scheme list" where
  "filterRepositories cfg [] = Inr []"
| "filterRepositories cfg (activity # rest) =
     (let repoName = repository activity
      in case (if repoName \<in> set (excludeRepos cfg) then Inr False
               else (case somePattern githubPatternSource (excludeRepoPatterns cfg) repoName of
                       Inl e \<Rightarrow> Inl e
                     | Inr matched \<Rightarrow> Inr (\<not> matched))) of
           Inl e \<Rightarrow> Inl e
         | Inr keep \<Rightarrow>
             (case filterRepositories cfg rest of
                Inl e \<Rightarrow> Inl e
              | Inr kept \<Rightarrow> Inr (if keep then activity # kept else kept)))"

section \<open>Calendar connector: event title patterns\<close>

text \<open>
  The pattern test of \<open>shouldIncludeEvent\<close>; \<open>excludeEventPatterns\<close> may be absent from
  the configuration, and the title is compared in lower case.
\<close>

definition eventTitleExcluded :: "string list option \<Rightarrow> string option \<Rightarrow> error + bool" where
  "eventTitleExcluded excludeEventPatterns summary =
     (let eventTitle = toLowerCase (case summary of None \<Rightarrow> [] | Some s \<Rightarrow> s)
      in case excludeEventPatterns of
           None \<Rightarrow> Inr False
         | Some patterns \<Rightarrow> somePattern gcalPatternSource patterns eventTitle)"

section \<open>Chat connector: intent labels\<close>

text \<open>
  \<open>extractIntent(text, channelName)\<close>: six keyword tests, each pushing its label, and the
  default label when nothing was pushed.
\<close>

definition extractIntent :: "string \<Rightarrow> string \<Rightarrow> string list" where
  "extractIntent text channelName =
     (let intents0 = [];
          intents1 =
            (if js_includes text ''?'' \<or> js_startsWith (toLowerCase text) ''how '' \<or>
                js_startsWith (toLowerCase text) ''what '' \<or>
                js_startsWith (toLowerCase text) ''why ''
             then intents0 @ [''question''] else intents0);
          intents2 =
            (if js_includes (toLowerCase text) ''decision'' \<or>
                js_includes (toLowerCase text) ''decide'' \<or>
                js_includes (toLowerCase text) ''should we''
             then intents1 @ [''decision''] else intents1);
          intents3 =
            (if js_includes (toLowerCase text) ''update'' \<or>
                js_includes (toLowerCase text) ''progress'' \<or>
                js_includes (toLowerCase text) ''done'' \<or>
                js_includes (toLowerCase text) ''completed''
             then intents2 @ [''status_update''] else intents2);
          intents4 =
            (if js_includes (toLowerCase text) ''meeting'' \<or>
                js_includes (toLowerCase text) ''schedule'' \<or>
                js_includes (toLowerCase text) ''sync'' \<or>
                js_includes (toLowerCase text) ''coordinate''
             then intents3 @ [''coordination''] else intents3);
          intents5 =
            (if js_includes (toLowerCase text) ''issue'' \<or>
                js_includes (toLowerCase text) ''problem'' \<or>
                js_includes (toLowerCase text) ''bug'' \<or>
                js_includes (toLowerCase text) ''error''
             then intents4 @ [''problem_solving''] else intents4);
          intents6 =
            (if js_includes (toLowerCase text) ''fyi'' \<or>
                js_includes (toLowerCase text) ''heads up'' \<or>
                js_includes (toLowerCase text) ''announcement''
             then intents5 @ [''information_sharing''] else intents5)
      in if length intents6 > 0 then intents6 else [''general_communication''])"

section \<open>Chat connector: day-by-day sync\<close>

record slack_channel =
  is_im :: bool
  is_mpim :: bool
  is_private :: bool
  is_channel :: bool
  ch_name :: string
  ch_id :: string

text \<open>
  A match of the search facility. \<open>sm_ts\<close> is the \<open>Date\<close> that
  \<open>new Date(parseFloat(msg.ts) * 1000)\<close> gives; an absent field is \<open>None\<close>.
\<close>

record search_match =
  sm_ts :: jsdate
  sm_channel :: "slack_channel option"
  sm_text :: "string option"
  sm_user :: string
  sm_thread_ts :: "string option"
  sm_permalink :: string
  sm_score :: "int option"

definition getChannelInfo :: "slack_channel \<Rightarrow> string \<times> string" where
  "getChannelInfo channel =
     (if is_im channel then (''direct_message'', ''Direct Message'')
      else if is_mpim channel then (''group_message'', ''Group DM'')
      else if is_private channel then (''private_channel_message'', ch_name channel)
      else if is_channel channel then (''public_channel_message'', ch_name channel)
      else (''unknown_message'', ch_id channel))"

text \<open>\<open>processSearchMessage(msg)\<close>: any exception inside gives \<open>null\<close>.\<close>

definition processSearchMessage :: "search_match \<Rightarrow> message option" where
  "processSearchMessage msg =
     (case toISOString (sm_ts msg) of
        Inl e \<Rightarrow> None
      | Inr timestamp \<Rightarrow>
          (case sm_channel msg of
             None \<Rightarrow> None
           | Some channel \<Rightarrow>
               (let channelInfo = getChannelInfo channel;
                    body = (case sm_text msg of None \<Rightarrow> [] | Some s \<Rightarrow> s)
                in Some \<lparr>m_type = fst channelInfo, m_channel = snd channelInfo,
                         m_channelId = ch_id channel, m_timestamp = timestamp,
                         m_text = body, m_user = sm_user msg,
                         m_threadTs = sm_thread_ts msg, m_permalink = sm_permalink msg,
                         m_intent = extractIntent body (snd channelInfo),
                         m_searchScore = (case sm_score msg of None \<Rightarrow> 0 | Some n \<Rightarrow> n)\<rparr>)))"

text \<open>The inner loop over one day's matches.\<close>

fun processDay :: "slack_config \<Rightarrow> search_match list \<Rightarrow> message list \<Rightarrow> error + message list" where
  "processDay cfg [] dayActivities = Inr dayActivities"
| "processDay cfg (msg # msgs) dayActivities =
     (case processSearchMessage msg of
        None \<Rightarrow> processDay cfg msgs dayActivities
      | Some processedMessage \<Rightarrow>
          (case shouldIncludeMessage cfg processedMessage of
             Inl e \<Rightarrow> Inl e
           | Inr keep \<Rightarrow>
               processDay cfg msgs
                 (if keep then dayActivities @ [processedMessage] else dayActivities)))"

text \<open>
  The state of the day loop. \<open>searches\<close> records, in order, the date of each call of
  \<open>searchUserMessages\<close>, whose query is \<open>from:<user> on:<date>\<close>.
\<close>

record sync_acc =
  searches :: "string list"
  allActivities :: "message list"
  allActivitiesByDate :: "(string \<times> message list) list"

text \<open>
  The loop \<open>while (currentDate <= endDate)\<close>. \<open>searchUserMessages\<close> catches every error
  of the search facility and returns a list, so it is a function from the day's date string
  to the matches found. The loop ends when the day steps pass \<open>endDate\<close>; a result
  \<open>None\<close> stands for a loop that does not end.
\<close>

partial_function (option) syncDays ::
    "slack_config \<Rightarrow> zone \<Rightarrow> (string \<Rightarrow> search_match list) \<Rightarrow> int \<Rightarrow> int \<Rightarrow> sync_acc \<Rightarrow>
     (error + sync_acc) option" where
  "syncDays cfg z searchUserMessages currentDate endDate acc =
     (if currentDate \<le> endDate
      then (let dateStr = format_yyyy_MM_dd (utcOffset z currentDate) currentDate;
                messages = searchUserMessages dateStr
            in case processDay cfg messages [] of
                 Inl e \<Rightarrow> Some (Inl e)
               | Inr dayActivities \<Rightarrow>
                   syncDays cfg z searchUserMessages (addOneDay z currentDate) endDate
                     (if length dayActivities > 0
                      then \<lparr>searches = searches acc @ [dateStr],
                            allActivities = allActivities acc @ dayActivities,
                            allActivitiesByDate =
                              obj_set dateStr dayActivities (allActivitiesByDate acc)\<rparr>
                      else acc\<lparr>searches := searches acc @ [dateStr]\<rparr>))
      else Some (Inr acc))"

declare syncDays.simps [code]

text \<open>A search facility that finds nothing on any day.\<close>

definition noMatches :: "string \<Rightarrow> search_match list" where
  "noMatches d = []"

definition message_json :: "message \<Rightarrow> json" where
  "message_json m =
     JObj ([(''type'', JStr (m_type m)), (''channel'', JStr (m_channel m)),
            (''channelId'', JStr (m_channelId m)), (''timestamp'', JStr (m_timestamp m)),
            (''text'', JStr (m_text m)), (''user'', JStr (m_user m)),
            (''isUserMessage'', JBool True)] @
           (case m_threadTs m of None \<Rightarrow> [] | Some t \<Rightarrow> [(''threadTs'', JStr t)]) @
           [(''permalink'', JStr (m_permalink m)), (''reactions'', JArr []),
            (''intent'', JArr (map JStr (m_intent m))), (''searchScore'', JNum (m_searchScore m))])"

text \<open>
  The loop that saves each day's activities; the day is passed as its date string, which
  \<open>saveRawData\<close> reads as an instant and formats with the offset in effect then.
\<close>

fun saveDays ::
    "config \<Rightarrow> zone \<Rightarrow> string \<Rightarrow> fs \<Rightarrow> (string \<times> message list) list \<Rightarrow> error + fs" where
  "saveDays scfg z now fs [] = Inr fs"
| "saveDays scfg z now fs (entry # entries) =
     (case saveRawData scfg
             (case parse_date_only (fst entry) of None \<Rightarrow> 0 | Some t \<Rightarrow> utcOffset z t)
             now fs ''slack'' (DateStr (fst entry))
             (JArr (map message_json (snd entry))) of
        Inl e \<Rightarrow> Inl e
      | Inr r \<Rightarrow> saveDays scfg z now (fst r) entries)"

text \<open>
  \<open>sync(startDate, endDate)\<close>. \<open>identity\<close> is the cached user id and name, \<open>authTest\<close>
  the answer of the identity call made when nothing is cached, \<open>now\<close> the clock reading
  used for the stored timestamps. The result is the new store, the activities returned and
  the searches issued, or \<open>None\<close> when the day loop does not end.
\<close>

definition sync ::
    "slack_config \<Rightarrow> config \<Rightarrow> zone \<Rightarrow> string \<Rightarrow> (string \<times> string) option \<Rightarrow>
     error + string \<times> string \<Rightarrow> (string \<Rightarrow> search_match list) \<Rightarrow> path list \<Rightarrow> fs \<Rightarrow>
     jsdate \<Rightarrow> jsdate \<Rightarrow> (error + (fs \<times> message list \<times> string list)) option" where
  "sync cfg scfg z now identity authTest searchUserMessages dirs fs startDate endDate =
     (case (case identity of Some u \<Rightarrow> Inr u | None \<Rightarrow> authTest) of
        Inl e \<Rightarrow> Some (Inl e)
      | Inr user \<Rightarrow>
          (case (case (startDate, endDate) of
                   (Some s, Some e) \<Rightarrow>
                     syncDays cfg z searchUserMessages s e
                       \<lparr>searches = [], allActivities = [], allActivitiesByDate = []\<rparr>
                 | _ \<Rightarrow>
                     Some (Inr \<lparr>searches = [], allActivities = [],
                                allActivitiesByDate = []\<rparr>)) of
             None \<Rightarrow> None
           | Some (Inl e) \<Rightarrow> Some (Inl e)
           | Some (Inr acc) \<Rightarrow>
               Some
                 (case saveDays scfg z now fs (allActivitiesByDate acc) of
                    Inl e \<Rightarrow> Inl e
                  | Inr fs1 \<Rightarrow>
                      (case toISOString startDate of
                         Inl e \<Rightarrow> Inl e
                       | Inr lastSyncStart \<Rightarrow>
                           (case toISOString endDate of
                              Inl e \<Rightarrow> Inl e
                            | Inr lastSyncEnd \<Rightarrow>
                                (case setSyncState scfg now dirs fs1 ''slack''
                                        (JObj [(''lastSyncStart'', JStr lastSyncStart),
                                               (''lastSyncEnd'', JStr lastSyncEnd),
                                               (''totalActivities'',
                                                JNum (int (length (allActivities acc)))),
                                               (''userId'', JStr (fst user)),
                                               (''username'', JStr (snd user)),
                                               (''method'', JStr ''search_api_daily'')]) of
                                   Inl e \<Rightarrow> Inl e
                                 | Inr r \<Rightarrow> Inr (fst r, allActivities acc, searches acc)))))))"

section \<open>Summarization fallback\<close>

text \<open>
  An activity as the journal assembly passes it: its source and its data, which may be
  missing. \<open>show_json\<close> is the text that a template literal gives for a value.
\<close>

record activity =
  a_source :: string
  a_data :: "json option"

fun join_with :: "string \<Rightarrow> string list \<Rightarrow> string" where
  "join_with sep [] = []"
| "join_with sep [x] = x"
| "join_with sep (x # y # ys) = x @ sep @ join_with sep (y # ys)"

fun show_json :: "json \<Rightarrow> string" where
  "show_json JNull = ''null''"
| "show_json (JBool b) = (if b then ''true'' else ''false'')"
| "show_json (JNum n) = int_toString n"
| "show_json (JStr s) = s"
| "show_json (JArr xs) =
     join_with '','' (map (\<lambda>x. if x = JNull then [] else show_json x) xs)"
| "show_json (JObj kvs) = ''[object Object]''"

definition show_prop :: "json option \<Rightarrow> string" where
  "show_prop v = (case v of None \<Rightarrow> ''undefined'' | Some j \<Rightarrow> show_json j)"

text \<open>Reading \<open>data.k\<close>; on missing data it throws.\<close>

definition data_prop :: "json option \<Rightarrow> string \<Rightarrow> error + json option" where
  "data_prop d k =
     (case d of
        None \<Rightarrow> Inl (TypeError ''Cannot read properties of undefined'')
      | Some v \<Rightarrow> js_prop v k)"

text \<open>
  \<open>Math.round(data.duration)\<close> as text, for the values that convert to an integer or to
  \<open>NaN\<close> directly; durations that are strings, arrays or objects are outside this model.
\<close>

definition show_rounded :: "json option \<Rightarrow> error + string" where
  "show_rounded v =
     (case v of
        None \<Rightarrow> Inr ''NaN''
      | Some JNull \<Rightarrow> Inr ''0''
      | Some (JBool b) \<Rightarrow> Inr (if b then ''1'' else ''0'')
      | Some (JNum n) \<Rightarrow> Inr (int_toString n)
      | _ \<Rightarrow> Inl (OutsideModel ''duration is not a number''))"

definition describeActivity :: "activity \<Rightarrow> error + string" where
  "describeActivity act =
     (let d = a_data act
      in if a_source act = ''slack''
         then (case data_prop d ''type'' of
                 Inl e \<Rightarrow> Inl e
               | Inr ty \<Rightarrow>
                   (case data_prop d ''channel'' of
                      Inl e \<Rightarrow> Inl e
                    | Inr ch \<Rightarrow>
                        (case data_prop d ''text'' of
                           Inl e \<Rightarrow> Inl e
                         | Inr (Some (JStr s)) \<Rightarrow>
                             Inr (''Slack '' @ show_prop ty @ '' in #'' @ show_prop ch @
                                  [CHR '':'', CHR '' '', CHR 0x22] @ take 50 s @
                                  [CHR ''.'', CHR ''.'', CHR ''.'', CHR 0x22])
                         | Inr other \<Rightarrow> Inl (TypeError ''substring is not a function''))))
         else if a_source act = ''github''
         then (case data_prop d ''type'' of
                 Inl e \<Rightarrow> Inl e
               | Inr ty \<Rightarrow>
                   (case data_prop d ''title'' of
                      Inl e \<Rightarrow> Inl e
                    | Inr title \<Rightarrow>
                        (case data_prop d ''message'' of
                           Inl e \<Rightarrow> Inl e
                         | Inr msg \<Rightarrow>
                             (case data_prop d ''repository'' of
                                Inl e \<Rightarrow> Inl e
                              | Inr repo \<Rightarrow>
                                  Inr (if ty = Some (JStr ''pr_created'')
                                       then ''GitHub PR created: '' @ [CHR 0x22] @ show_prop title @
                                            [CHR 0x22] @ '' in '' @ show_prop repo
                                       else if ty = Some (JStr ''pr_reviewed'')
                                       then ''GitHub PR reviewed: '' @ [CHR 0x22] @ show_prop title @
                                            [CHR 0x22] @ '' in '' @ show_prop repo
                                       else if ty = Some (JStr ''commit'')
                                       then ''GitHub commit: '' @ [CHR 0x22] @ show_prop msg @
                                            [CHR 0x22] @ '' in '' @ show_prop repo
                                       else ''GitHub '' @ show_prop ty @ '' in '' @
                                            show_prop repo)))))
         else if a_source act = ''gcal''
         then (case data_prop d ''eventType'' of
                 Inl e \<Rightarrow> Inl e
               | Inr ety \<Rightarrow>
                   (case data_prop d ''title'' of
                      Inl e \<Rightarrow> Inl e
                    | Inr title \<Rightarrow>
                        (case data_prop d ''duration'' of
                           Inl e \<Rightarrow> Inl e
                         | Inr dur \<Rightarrow>
                             (case show_rounded dur of
                                Inl e \<Rightarrow> Inl e
                              | Inr mins \<Rightarrow>
                                  Inr (''Calendar: '' @ show_prop ety @ [CHR '' '', CHR 0x22] @
                                       show_prop title @ [CHR 0x22, CHR '' '', CHR ''(''] @ mins @
                                       ''min)'')))))
         else Inr (a_source act @ '' activity''))"

text \<open>The \<open>forEach\<close> over the first ten activities, appending one bullet line each.\<close>

fun appendKeyActivities :: "activity list \<Rightarrow> string \<Rightarrow> error + string" where
  "appendKeyActivities [] summary = Inr summary"
| "appendKeyActivities (act # rest) summary =
     (case describeActivity act of
        Inl e \<Rightarrow> Inl e
      | Inr line \<Rightarrow> appendKeyActivities rest (summary @ ''- '' @ line @ [CHR 0x0A]))"

definition fallbackSummary :: "int \<Rightarrow> activity list \<Rightarrow> jsdate \<Rightarrow> error + string" where
  "fallbackSummary tz activities date =
     (let dateStr = toDateString tz date;
          summary0 = ''# Work Summary for '' @ dateStr @ [CHR 0x0A, CHR 0x0A];
          slackCount = length (filter (\<lambda>a. a_source a = ''slack'') activities);
          githubCount = length (filter (\<lambda>a. a_source a = ''github'') activities);
          calendarCount = length (filter (\<lambda>a. a_source a = ''gcal'') activities);
          summary1 = summary0 @ ''## Activity Overview'' @ [CHR 0x0A];
          summary2 = summary1 @ ''- **Slack Communications**: '' @ nat_toString slackCount @
                     '' activities'' @ [CHR 0x0A];
          summary3 = summary2 @ ''- **GitHub Activities**: '' @ nat_toString githubCount @
                     '' activities'' @ [CHR 0x0A];
          summary4 = summary3 @ ''- **Calendar Events**: '' @ nat_toString calendarCount @
                     '' events'' @ [CHR 0x0A, CHR 0x0A];
          summary5 = summary4 @ ''## Key Activities'' @ [CHR 0x0A]
      in appendKeyActivities (take 10 activities) summary5)"

text \<open>
  The Markdown bullet items of a document: its lines that begin with a dash and a space.
\<close>

fun splitLines :: "string \<Rightarrow> string \<Rightarrow> string list" where
  "splitLines [] cur = [cur]"
| "splitLines (c # cs) cur = (if c = CHR 0x0A then cur # splitLines cs [] else splitLines cs (cur @ [c]))"

definition bulletItems :: "string \<Rightarrow> string list" where
  "bulletItems doc = filter (\<lambda>l. js_startsWith l ''- '') (splitLines doc [])"

section \<open>Configuration loader\<close>

text \<open>
  The process environment maps the name of a variable that is set to its value. The
  replacement of \<open>/\$\{([^}]+)\}/g\<close> scans from the left: a match is a dollar sign, an
  opening brace, one or more characters other than a closing brace, and a closing brace;
  after a match the scan goes on behind it. The callback returns
  \<open>process.env[envVar] || match\<close>: the value of a variable that is set and not empty; for a
  name that is not set, the member that every object inherits under that name, as text;
  else the match itself.
\<close>

type_synonym env = "string \<Rightarrow> string option"

definition envOrMatch :: "env \<Rightarrow> string \<Rightarrow> string \<Rightarrow> string" where
  "envOrMatch env envVar match =
     (case env envVar of
        Some v \<Rightarrow> if v = [] then match else v
      | None \<Rightarrow> (case inheritedMember envVar of Some member \<Rightarrow> member | None \<Rightarrow> match))"

function replaceEnv :: "env \<Rightarrow> string \<Rightarrow> string" where
  "replaceEnv env [] = []"
| "replaceEnv env (c # cs) =
     (let envVar = takeWhile (\<lambda>x. x \<noteq> CHR ''}'') (drop 1 cs);
          rest = dropWhile (\<lambda>x. x \<noteq> CHR ''}'') (drop 1 cs)
      in if c = CHR ''$'' \<and> take 1 cs = ''{'' \<and> envVar \<noteq> [] \<and> rest \<noteq> []
         then envOrMatch env envVar (''${'' @ envVar @ ''}'') @ replaceEnv env (drop 1 rest)
         else c # replaceEnv env cs)"
  by pat_completeness auto
termination
proof (relation "measure (\<lambda>(env, s). length s)")
  show "wf (measure (\<lambda>(env, s). length s))" by simp
next
  fix env :: env and c :: char and cs x xa :: string
  assume "xa = dropWhile (\<lambda>x. x \<noteq> CHR ''}'') (drop 1 cs)"
  then have "length (drop 1 xa) \<le> length cs"
    using length_dropWhile_le [of "\<lambda>x. x \<noteq> CHR ''}''" "drop 1 cs"] by simp
  then show "((env, drop 1 xa), (env, c # cs)) \<in> measure (\<lambda>(env, s). length s)" by simp
next
  fix env :: env and c :: char and cs :: string
  show "((env, cs), (env, c # cs)) \<in> measure (\<lambda>(env, s). length s)" by simp
qed

declare replaceEnv.simps [simp del]

text \<open>
  \<open>resolveEnvVariables(obj)\<close>. The new object is filled by assignments
  \<open>resolved[key] = ...\<close>, so a property under the key \<open>__proto__\<close> is not carried over.
\<close>

primrec resolveEnvVariables :: "env \<Rightarrow> json \<Rightarrow> json" where
  "resolveEnvVariables env JNull = JNull"
| "resolveEnvVariables env (JBool b) = JBool b"
| "resolveEnvVariables env (JNum n) = JNum n"
| "resolveEnvVariables env (JStr s) = JStr (replaceEnv env s)"
| "resolveEnvVariables env (JArr xs) = JArr (map (resolveEnvVariables env) xs)"
| "resolveEnvVariables env (JObj kvs) =
     JObj (filter (\<lambda>p. fst p \<noteq> ''__proto__'')
             (map (map_prod id (resolveEnvVariables env)) kvs))"

text \<open>
  \<open>mergeConfigs(defaultConf, userConf)\<close>: a copy of the defaults, in which every own
  property of the user's value is assigned; a property that is an object other than an
  array or \<open>null\<close> is merged with \<open>defaultConf[key] || {}\<close> first. Reading
  \<open>defaultConf[key]\<close> from defaults that are no object, or under a key that the defaults
  do not own and every object inherits, is outside this model.
\<close>

definition defaultProp :: "json \<Rightarrow> string \<Rightarrow> error + json" where
  "defaultProp defaultConf key =
     (case defaultConf of
        JObj kvs \<Rightarrow>
          (case map_of kvs key of
             Some x \<Rightarrow> Inr (if truthy x then x else JObj [])
           | None \<Rightarrow>
               if inheritedMember key \<noteq> None then Inl (OutsideModel ''inherited member'')
               else Inr (JObj []))
      | _ \<Rightarrow> Inl (OutsideModel ''defaults that are no object''))"

fun collect :: "(error + 'a) list \<Rightarrow> error + 'a list" where
  "collect [] = Inr []"
| "collect (x # xs) =
     (case x of
        Inl e \<Rightarrow> Inl e
      | Inr a \<Rightarrow> (case collect xs of Inl e \<Rightarrow> Inl e | Inr as \<Rightarrow> Inr (a # as)))"

function mergeConfigs :: "json \<Rightarrow> json \<Rightarrow> error + obj" where
  "mergeConfigs defaultConf userConf =
     (case collect
             (map (\<lambda>p. case snd p of
                          JObj u \<Rightarrow>
                            (case defaultProp defaultConf (fst p) of
                               Inl e \<Rightarrow> Inl e
                             | Inr d \<Rightarrow>
                                 (case mergeConfigs d (snd p) of
                                    Inl e \<Rightarrow> Inl e
                                  | Inr merged \<Rightarrow> Inr (fst p, JObj merged)))
                        | _ \<Rightarrow> Inr p)
                (own_props (Some userConf))) of
        Inl e \<Rightarrow> Inl e
      | Inr ps \<Rightarrow>
          Inr (fold (\<lambda>p acc. js_set (fst p) (snd p) acc) ps
                 (assign [] (own_props (Some defaultConf)))))"
  by pat_completeness auto
termination
proof (relation "measure (\<lambda>(d, u). size u)")
  show "wf (measure (\<lambda>(d, u). size u))" by simp
next
  fix defaultConf userConf d :: json and p :: "string \<times> json" and u :: "(string \<times> json) list"
  assume mem: "p \<in> set (own_props (Some userConf))" and obj: "snd p = JObj u"
  have "size (snd p) < size userConf"
  proof (cases userConf)
    case (JObj kvs)
    with mem have "p \<in> set kvs" by (simp add: own_props_def)
    then have "size (snd p) < Suc (size_list (size_prod (\<lambda>x. 0) size) kvs)"
      by (induction kvs) auto
    with JObj show ?thesis by simp
  next
    case (JArr xs)
    with mem have "p \<in> set (zip (map nat_toString [0..<length xs]) xs)"
      by (simp add: own_props_def indexed_def)
    then have "snd p \<in> set xs"
      by (metis prod.collapse set_zip_rightD)
    then have "size (snd p) < Suc (size_list size xs)"
      by (induction xs) auto
    with JArr show ?thesis by simp
  next
    case (JStr s)
    with mem have "p \<in> set (zip (map nat_toString [0..<length s]) (map (\<lambda>c. JStr [c]) s))"
      by (simp add: own_props_def indexed_def)
    then have "snd p \<in> set (map (\<lambda>c. JStr [c]) s)"
      by (metis prod.collapse set_zip_rightD)
    with obj show ?thesis by auto
  qed (use mem in \<open>simp_all add: own_props_def\<close>)
  then show "((d, snd p), (defaultConf, userConf)) \<in> measure (\<lambda>(d, u). size u)" by simp
qed

declare mergeConfigs.simps [simp del]

text \<open>
  \<open>load()\<close>. \<open>defaultConfig\<close> is the constant object of defaults, \<open>configPath\<close> the fixed
  location of the user's file. \<open>mergedConfig\<close> is the configuration before the
  substitution: the merge of the user's file over the defaults, or a copy of the defaults
  when the file is absent or unreadable. \<open>load\<close> returns the substituted configuration and
  the new store; when the file is absent the defaults are saved, and a failure to save them
  changes nothing.
\<close>

definition mergedConfig :: "json \<Rightarrow> path \<Rightarrow> fs \<Rightarrow> error + obj" where
  "mergedConfig defaultConfig configPath fs =
     (if pathExists fs configPath
      then (case readJson fs configPath of
              Inl e \<Rightarrow> Inr (assign [] (own_props (Some defaultConfig)))
            | Inr userConfig \<Rightarrow> mergeConfigs defaultConfig userConfig)
      else Inr (assign [] (own_props (Some defaultConfig))))"

definition load :: "env \<Rightarrow> json \<Rightarrow> path \<Rightarrow> fs \<Rightarrow> error + (json \<times> fs)" where
  "load env defaultConfig configPath fs =
     (case mergedConfig defaultConfig configPath fs of
        Inl e \<Rightarrow> Inl e
      | Inr config \<Rightarrow>
          Inr (resolveEnvVariables env (JObj config),
               if pathExists fs configPath then fs
               else (case ensureDir fs (butlast configPath) of
                       Inl e \<Rightarrow> fs
                     | Inr u \<Rightarrow>
                         (case writeFile fs configPath (JsonFile (JObj config)) of
                            Inl e \<Rightarrow> fs
                          | Inr fs' \<Rightarrow> fs'))))"

section \<open>Properties\<close>

subsection \<open>Intent labels\<close>

text \<open>
  Claim C9. For every message text, \<open>extractIntent\<close> returns a non-empty list of labels:
  the labels of all the keyword categories that match, in the order question, decision,
  status update, coordination, problem solving, information sharing; and exactly
  \<open>general_communication\<close> when no category matches.
\<close>

theorem extractIntent_labels:
  "extractIntent text channelName =
     (let t = toLowerCase text;
          labels =
            map fst (filter snd
              [(''question'',
                  js_includes text ''?'' \<or> js_startsWith t ''how '' \<or> js_startsWith t ''what '' \<or>
                  js_startsWith t ''why ''),
               (''decision'',
                  js_includes t ''decision'' \<or> js_includes t ''decide'' \<or>
                  js_includes t ''should we''),
               (''status_update'',
                  js_includes t ''update'' \<or> js_includes t ''progress'' \<or> js_includes t ''done'' \<or>
                  js_includes t ''completed''),
               (''coordination'',
                  js_includes t ''meeting'' \<or> js_includes t ''schedule'' \<or> js_includes t ''sync'' \<or>
                  js_includes t ''coordinate''),
               (''problem_solving'',
                  js_includes t ''issue'' \<or> js_includes t ''problem'' \<or> js_includes t ''bug'' \<or>
                  js_includes t ''error''),
               (''information_sharing'',
                  js_includes t ''fyi'' \<or> js_includes t ''heads up'' \<or>
                  js_includes t ''announcement'')])
      in if labels = [] then [''general_communication''] else labels) \<and>
   extractIntent text channelName \<noteq> []"
proof -
  define t where "t = toLowerCase text"
  define q where "q = (js_includes text ''?'' \<or> js_startsWith t ''how '' \<or>
    js_startsWith t ''what '' \<or> js_startsWith t ''why '')"
  define d where "d = (js_includes t ''decision'' \<or> js_includes t ''decide'' \<or>
    js_includes t ''should we'')"
  define s where "s = (js_includes t ''update'' \<or> js_includes t ''progress'' \<or>
    js_includes t ''done'' \<or> js_includes t ''completed'')"
  define c where "c = (js_includes t ''meeting'' \<or> js_includes t ''schedule'' \<or>
    js_includes t ''sync'' \<or> js_includes t ''coordinate'')"
  define p where "p = (js_includes t ''issue'' \<or> js_includes t ''problem'' \<or>
    js_includes t ''bug'' \<or> js_includes t ''error'')"
  define i where "i = (js_includes t ''fyi'' \<or> js_includes t ''heads up'' \<or>
    js_includes t ''announcement'')"
  show ?thesis
    unfolding extractIntent_def Let_def t_def [symmetric] q_def [symmetric] d_def [symmetric]
      s_def [symmetric] c_def [symmetric] p_def [symmetric] i_def [symmetric]
    by (cases q; cases d; cases s; cases c; cases p; cases i; simp)
qed

theorem extractIntent_labels_witness:
  "extractIntent ''How do we Decide?'' ''dev'' = [''question'', ''decision''] \<and>
   extractIntent ''hello there'' ''dev'' = [''general_communication'']"
  using extractIntent_labels [of "''How do we Decide?''" "''dev''"]
    extractIntent_labels [of "''hello there''" "''dev''"]
  by (simp add: toLowerCase_def lower_char_def js_startsWith_def)

subsection \<open>Star replacement in exclusion patterns\<close>







subsection \<open>The channel pattern \<open>test-*\<close>\<close>

lemma test_pattern_channels:
  "somePattern slackPatternSource [''test-*''] ''test-foo'' = Inr True"
  "somePattern slackPatternSource [''test-*''] ''TEST-Foo'' = Inr True"
  "somePattern slackPatternSource [''test-*''] ''contest-1'' = Inr True"
  "somePattern slackPatternSource [''test-*''] ''test'' = Inr False"
  by (simp_all add: slackPatternSource_def regexTest_def js_startsWith_def outside_fragment_def
      atom_ok_def upper_char_def)

text \<open>
  Claim C2, as the code has it. With the pattern list \<open>['test-*']\<close> the regular
  expression is \<open>/test-.*/i\<close>, tested without anchors: a message that passes the other
  conditions is excluded when its channel is \<open>test-foo\<close>, in either case of the
  letters, and also when it is \<open>contest-1\<close>, which contains \<open>test-\<close>; a message in
  the channel \<open>test\<close>, which has no dash, is kept.
\<close>

theorem shouldIncludeMessage_test_pattern:
  assumes "excludeChannelPatterns cfg = [''test-*'']"
    and "minMessageLength cfg \<le> int (length (m_text m))"
    and "''test'' \<notin> set (excludeChannels cfg)"
    and "trackDMs cfg \<or> m_type m \<noteq> ''direct_message''"
  shows "shouldIncludeMessage cfg (m\<lparr>m_channel := ''test-foo''\<rparr>) = Inr False \<and>
         shouldIncludeMessage cfg (m\<lparr>m_channel := ''TEST-Foo''\<rparr>) = Inr False \<and>
         shouldIncludeMessage cfg (m\<lparr>m_channel := ''contest-1''\<rparr>) = Inr False \<and>
         shouldIncludeMessage cfg (m\<lparr>m_channel := ''test''\<rparr>) = Inr True"
  using assms
  by (auto simp: shouldIncludeMessage_def test_pattern_channels simp del: somePattern.simps)

theorem shouldIncludeMessage_test_pattern_witness:
  "shouldIncludeMessage
     \<lparr>minMessageLength = 10, excludeChannels = [''random'', ''general''],
      excludeChannelPatterns = [''test-*''], trackDMs = True\<rparr>
     \<lparr>m_type = ''public_channel_message'', m_channel = ''test-foo'', m_channelId = ''C1'',
      m_timestamp = ''2024-01-15T10:00:00.000Z'', m_text = ''hello world!'', m_user = ''U1'',
      m_threadTs = None, m_permalink = ''p'', m_intent = [''general_communication''],
      m_searchScore = 0\<rparr> = Inr False"
  using shouldIncludeMessage_test_pattern
    [of "\<lparr>minMessageLength = 10, excludeChannels = [''random'', ''general''],
           excludeChannelPatterns = [''test-*''], trackDMs = True\<rparr>"
        "\<lparr>m_type = ''public_channel_message'', m_channel = ''dev'', m_channelId = ''C1'',
          m_timestamp = ''2024-01-15T10:00:00.000Z'', m_text = ''hello world!'', m_user = ''U1'',
          m_threadTs = None, m_permalink = ''p'', m_intent = [''general_communication''],
          m_searchScore = 0\<rparr>"]
  by simp

text \<open>
  The claim as written fails: the message in \<open>contest-1\<close> is excluded, and the message in
  \<open>test\<close> is included.
\<close>

theorem shouldIncludeMessage_test_pattern_counterexample:
  "shouldIncludeMessage
     \<lparr>minMessageLength = 10, excludeChannels = [''random'', ''general''],
      excludeChannelPatterns = [''test-*''], trackDMs = True\<rparr>
     \<lparr>m_type = ''public_channel_message'', m_channel = ''contest-1'', m_channelId = ''C1'',
      m_timestamp = ''2024-01-15T10:00:00.000Z'', m_text = ''hello world!'', m_user = ''U1'',
      m_threadTs = None, m_permalink = ''p'', m_intent = [''general_communication''],
      m_searchScore = 0\<rparr> = Inr False \<and>
   shouldIncludeMessage
     \<lparr>minMessageLength = 10, excludeChannels = [''random'', ''general''],
      excludeChannelPatterns = [''test-*''], trackDMs = True\<rparr>
     \<lparr>m_type = ''public_channel_message'', m_channel = ''test'', m_channelId = ''C1'',
      m_timestamp = ''2024-01-15T10:00:00.000Z'', m_text = ''hello world!'', m_user = ''U1'',
      m_threadTs = None, m_permalink = ''p'', m_intent = [''general_communication''],
      m_searchScore = 0\<rparr> = Inr True"
  by (simp add: shouldIncludeMessage_def test_pattern_channels del: somePattern.simps)

subsection \<open>The fallback summary of an empty day\<close>

lemma nat_toString_0: "nat_toString 0 = ''0''"
  by (simp add: nat_toString.simps digit_char_def)

text \<open>
  Claim C4, as the code has it. For every date and time zone the fallback summary of an
  empty activity list is returned without an exception, begins with the header
  \<open># Work Summary for <date>\<close>, lists the three overview counts, each 0, as bullet lines,
  and has nothing after the heading \<open>## Key Activities\<close>: there is no bullet for an
  activity.
\<close>

theorem fallbackSummary_empty:
  "fallbackSummary tz [] date =
     Inr (''# Work Summary for '' @ toDateString tz date @ [CHR 0x0A, CHR 0x0A] @
          ''## Activity Overview'' @ [CHR 0x0A] @
          ''- **Slack Communications**: 0 activities'' @ [CHR 0x0A] @
          ''- **GitHub Activities**: 0 activities'' @ [CHR 0x0A] @
          ''- **Calendar Events**: 0 events'' @ [CHR 0x0A, CHR 0x0A] @
          ''## Key Activities'' @ [CHR 0x0A])"
  by (simp add: fallbackSummary_def nat_toString_0)

text \<open>
  The claim as written fails: the document for an empty day has three bullet items, not
  none.
\<close>

theorem fallbackSummary_empty_counterexample:
  "map_sum id bulletItems (fallbackSummary 0 [] (Some 1705276800000)) =
     Inr [''- **Slack Communications**: 0 activities'',
          ''- **GitHub Activities**: 0 activities'',
          ''- **Calendar Events**: 0 events'']"
  by code_simp

subsection \<open>Placeholders of environment variables\<close>







text \<open>
  Nor is a placeholder always left as it is when the variable is unset: under the name of
  a member that every object inherits, it is replaced by the text of that member.
\<close>

lemma resolveEnvVariables_inherited_member:
  "resolveEnvVariables (\<lambda>x. None) (JStr ''${toString}'') =
     JStr ''function toString() { [native code] }'' \<and>
   resolveEnvVariables (\<lambda>x. None) (JStr ''${constructor}'') =
     JStr ''function Object() { [native code] }''"
  by (simp add: replaceEnv.simps envOrMatch_def inheritedMember_def)

lemma load_default_example:
  "load [''SLACK_TOKEN'' \<mapsto> ''xoxp-1'']
     (JObj [(''slack'', JObj [(''token'', JStr ''${SLACK_TOKEN}''), (''minMessageLength'', JNum 10)]),
            (''github'', JObj [(''token'', JStr ''${GITHUB_TOKEN}'')])])
     [''config.json'']
     [([''config.json''], JsonFile (JObj [(''slack'', JObj [(''minMessageLength'', JNum 5)])]))] =
   Inr (JObj [(''slack'', JObj [(''token'', JStr ''xoxp-1''), (''minMessageLength'', JNum 5)]),
              (''github'', JObj [(''token'', JStr ''${GITHUB_TOKEN}'')])],
        [([''config.json''], JsonFile (JObj [(''slack'', JObj [(''minMessageLength'', JNum 5)])]))])"
  by code_simp

subsection \<open>Raw data and sync state\<close>

lemma map_of_obj_set:
  "map_of (obj_set k v kvs) k' = (if k' = k then Some v else map_of kvs k')"
  by (induction kvs) auto

lemma writeFile_Inr:
  "writeFile fs p f = Inr fs' \<longleftrightarrow>
     \<not> pathBlocked fs p \<and> fs' = (p, f) # filter (\<lambda>e. fst e \<noteq> p) fs"
  by (auto simp: writeFile_def)

lemma pathBlocked_written:
  "\<not> pathBlocked fs p \<Longrightarrow> \<not> pathBlocked ((p, f) # filter (\<lambda>e. fst e \<noteq> p) fs) p"
  by (auto simp: pathBlocked_def list_ex_iff)

lemma ensureDir_written:
  "ensureDir fs dir = Inr () \<Longrightarrow>
   ensureDir ((dir @ [x], f) # filter (\<lambda>e. fst e \<noteq> dir @ [x]) fs) dir = Inr ()"
  by (auto simp: ensureDir_def list_ex_iff is_prefix_def split: if_splits)

lemma pathExists_written: "pathExists ((p, f) # fs) p"
  by (simp add: pathExists_def is_prefix_def)

lemma readJson_written: "readJson ((p, JsonFile j) # fs) p = Inr j"
  by (simp add: readJson_def)

lemma saveRawData_Inr:
  assumes "saveRawData cfg tz now fs integration date data = Inr (fs', p)"
  shows "\<exists>dateStr existingData.
           format tz (new_Date date) ''yyyy-MM-dd'' = Inr dateStr \<and>
           ensureDir fs (rawDataDir cfg @ [integration]) = Inr () \<and>
           p = rawDataDir cfg @ [integration, dateStr @ ''.json''] \<and>
           writeFile fs p
             (JsonFile (JObj (obj_set ''data''
                (case data of JArr xs \<Rightarrow> JArr xs | _ \<Rightarrow> JArr [data])
                (obj_set ''timestamp'' (JStr now)
                   (assign [] (own_props (Some existingData))))))) = Inr fs'"
proof (cases "format tz (new_Date date) ''yyyy-MM-dd''")
  case (Inl e)
  with assms show ?thesis by (simp add: saveRawData_def)
next
  case fmt: (Inr dateStr)
  show ?thesis
  proof (cases "ensureDir fs (rawDataDir cfg @ [integration])")
    case (Inl e)
    with assms fmt show ?thesis by (simp add: saveRawData_def)
  next
    case dir: (Inr u)
    let ?q = "rawDataDir cfg @ [integration, dateStr @ ''.json'']"
    show ?thesis
    proof (cases "if pathExists fs ?q then readJson fs ?q else Inr (JObj [])")
      case (Inl e)
      with assms fmt dir show ?thesis by (simp add: saveRawData_def Let_def)
    next
      case ex: (Inr existingData)
      let ?f = "JsonFile (JObj (obj_set ''data''
                (case data of JArr xs \<Rightarrow> JArr xs | _ \<Rightarrow> JArr [data])
                (obj_set ''timestamp'' (JStr now)
                   (assign [] (own_props (Some existingData))))))"
      show ?thesis
      proof (cases "writeFile fs ?q ?f")
        case (Inl e)
        with assms fmt dir ex show ?thesis by (simp add: saveRawData_def Let_def)
      next
        case w: (Inr fs'')
        with assms fmt dir ex have "fs'' = fs'" "p = ?q" by (simp_all add: saveRawData_def Let_def)
        with fmt dir w show ?thesis by auto
      qed
    qed
  qed
qed

text \<open>
  Claim C1. When \<open>saveRawData\<close> has stored the array \<open>d1\<close> for an integration and a
  day, a second call for the same integration and day with the array \<open>d2\<close> succeeds,
  writes the same file, and \<open>getRawData\<close> then returns an object whose \<open>data\<close> field
  is exactly \<open>d2\<close>: the first array is replaced, not extended.
\<close>

theorem saveRawData_twice:
  assumes "saveRawData cfg tz now1 fs integration date (JArr d1) = Inr (fs1, p)"
  shows "\<exists>fs2 kvs. saveRawData cfg tz now2 fs1 integration date (JArr d2) = Inr (fs2, p) \<and>
           getRawData cfg tz fs2 integration date = JObj kvs \<and>
           map_of kvs ''data'' = Some (JArr d2)"
proof -
  from saveRawData_Inr [OF assms] obtain dateStr existing where
    fmt: "format tz (new_Date date) ''yyyy-MM-dd'' = Inr dateStr" and
    dir_ok: "ensureDir fs (rawDataDir cfg @ [integration]) = Inr ()" and
    p: "p = rawDataDir cfg @ [integration, dateStr @ ''.json'']" and
    w1: "writeFile fs p
           (JsonFile (JObj (obj_set ''data'' (JArr d1)
              (obj_set ''timestamp'' (JStr now1)
                 (assign [] (own_props (Some existing))))))) = Inr fs1"
    by auto
  define merged1 where
    "merged1 = obj_set ''data'' (JArr d1)
                 (obj_set ''timestamp'' (JStr now1) (assign [] (own_props (Some existing))))"
  from w1 have free: "\<not> pathBlocked fs p"
    and fs1: "fs1 = (p, JsonFile (JObj merged1)) # filter (\<lambda>e. fst e \<noteq> p) fs"
    by (simp_all add: writeFile_Inr merged1_def)
  have p': "p = (rawDataDir cfg @ [integration]) @ [dateStr @ ''.json'']" using p by simp
  have dir1: "ensureDir fs1 (rawDataDir cfg @ [integration]) = Inr ()"
    unfolding fs1 p' by (rule ensureDir_written [OF dir_ok])
  have ex1: "pathExists fs1 p" unfolding fs1 by (rule pathExists_written)
  have rd1: "readJson fs1 p = Inr (JObj merged1)" unfolding fs1 by (rule readJson_written)
  have free1: "\<not> pathBlocked fs1 p" unfolding fs1 by (rule pathBlocked_written [OF free])
  define merged2 where
    "merged2 = obj_set ''data'' (JArr d2)
                 (obj_set ''timestamp'' (JStr now2) (assign [] (own_props (Some (JObj merged1)))))"
  define fs2 where "fs2 = (p, JsonFile (JObj merged2)) # filter (\<lambda>e. fst e \<noteq> p) fs1"
  have w2: "writeFile fs1 p (JsonFile (JObj merged2)) = Inr fs2"
    using free1 by (simp add: writeFile_Inr fs2_def)
  have s2: "saveRawData cfg tz now2 fs1 integration date (JArr d2) = Inr (fs2, p)"
    unfolding saveRawData_def Let_def fmt
    using dir1 ex1 rd1 w2 by (simp add: p [symmetric] merged2_def)
  have ex2: "pathExists fs2 p" unfolding fs2_def by (rule pathExists_written)
  have rd2: "readJson fs2 p = Inr (JObj merged2)" unfolding fs2_def by (rule readJson_written)
  have g2: "getRawData cfg tz fs2 integration date = JObj merged2"
    unfolding getRawData_def Let_def fmt
    using ex2 rd2 by (simp add: p)
  have "map_of merged2 ''data'' = Some (JArr d2)"
    by (simp add: merged2_def map_of_obj_set)
  with s2 g2 show ?thesis by blast
qed

theorem saveRawData_twice_witness:
  "saveRawData
     \<lparr>dataDir = [''data''], syncStateFile = [''data'', ''sync-state.json''],
      rawDataDir = [''data'', ''raw-data''], outputDir = [''data'', ''journals''],
      dateFormat = ''yyyy-MM-dd''\<rparr> 0 ''T1'' [] ''slack'' (DateStr ''2024-01-15'')
     (JArr [JNum 1]) =
     Inr ([([''data'', ''raw-data'', ''slack'', ''2024-01-15.json''],
            JsonFile (JObj [(''timestamp'', JStr ''T1''), (''data'', JArr [JNum 1])]))],
          [''data'', ''raw-data'', ''slack'', ''2024-01-15.json'']) \<and>
   (\<exists>fs2 kvs.
      saveRawData
        \<lparr>dataDir = [''data''], syncStateFile = [''data'', ''sync-state.json''],
         rawDataDir = [''data'', ''raw-data''], outputDir = [''data'', ''journals''],
         dateFormat = ''yyyy-MM-dd''\<rparr> 0 ''T2''
        [([''data'', ''raw-data'', ''slack'', ''2024-01-15.json''],
          JsonFile (JObj [(''timestamp'', JStr ''T1''), (''data'', JArr [JNum 1])]))]
        ''slack'' (DateStr ''2024-01-15'') (JArr [JNum 2, JNum 3]) =
        Inr (fs2, [''data'', ''raw-data'', ''slack'', ''2024-01-15.json'']) \<and>
      getRawData
        \<lparr>dataDir = [''data''], syncStateFile = [''data'', ''sync-state.json''],
         rawDataDir = [''data'', ''raw-data''], outputDir = [''data'', ''journals''],
         dateFormat = ''yyyy-MM-dd''\<rparr> 0 fs2 ''slack'' (DateStr ''2024-01-15'') = JObj kvs \<and>
      map_of kvs ''data'' = Some (JArr [JNum 2, JNum 3]))"
proof -
  let ?cfg = "\<lparr>dataDir = [''data''], syncStateFile = [''data'', ''sync-state.json''],
      rawDataDir = [''data'', ''raw-data''], outputDir = [''data'', ''journals''],
      dateFormat = ''yyyy-MM-dd''\<rparr>"
  let ?p = "[''data'', ''raw-data'', ''slack'', ''2024-01-15.json'']"
  have first: "saveRawData ?cfg 0 ''T1'' [] ''slack'' (DateStr ''2024-01-15'') (JArr [JNum 1]) =
      Inr ([(?p, JsonFile (JObj [(''timestamp'', JStr ''T1''), (''data'', JArr [JNum 1])]))], ?p)"
    by code_simp
  from first saveRawData_twice [OF first, of "''T2''" "[JNum 2, JNum 3]"]
  show ?thesis by (rule conjI)
qed







text \<open>
  \<open>setSyncState\<close> does not create the directory of the sync-state file: when it is
  missing, the write fails.
\<close>

lemma setSyncState_missing_directory:
  "setSyncState
     \<lparr>dataDir = [''data''], syncStateFile = [''data'', ''sync-state.json''],
      rawDataDir = [''data'', ''raw-data''], outputDir = [''data'', ''journals''],
      dateFormat = ''yyyy-MM-dd''\<rparr> ''T2'' [] []
     ''slack'' (JObj [(''totalActivities'', JNum 7)]) = Inl (IOError ''ENOENT'') \<and>
   setSyncState
     \<lparr>dataDir = [''data''], syncStateFile = [''data'', ''sync-state.json''],
      rawDataDir = [''data'', ''raw-data''], outputDir = [''data'', ''journals''],
      dateFormat = ''yyyy-MM-dd''\<rparr> ''T2'' [[''data'']] []
     ''slack'' (JObj [(''totalActivities'', JNum 7)]) =
     Inr ([([''data'', ''sync-state.json''],
            JsonFile (JObj [(''slack'', JObj [(''totalActivities'', JNum 7),
                                             (''lastSync'', JStr ''T2'')])]))],
          JObj [(''totalActivities'', JNum 7), (''lastSync'', JStr ''T2'')])"
  by code_simp

subsection \<open>The day loop of the chat connector\<close>

lemma int_le_div_iff:
  fixes d :: int
  assumes "0 < d"
  shows "n \<le> x div d \<longleftrightarrow> n * d \<le> x"
proof
  assume "n \<le> x div d"
  then have "n * d \<le> (x div d) * d" using assms by (simp add: mult_right_mono)
  also have "\<dots> = x - x mod d" by (simp add: minus_mod_eq_div_mult)
  also have "\<dots> \<le> x" using assms by simp
  finally show "n * d \<le> x" .
next
  assume "n * d \<le> x"
  then have "(n * d) div d \<le> x div d" using assms by (intro zdiv_mono1)
  then show "n \<le> x div d" using assms by simp
qed


lemma div_of_parts:
  fixes d :: int
  assumes "0 \<le> r" and "r < d"
  shows "(d * q + r) div d = q"
proof -
  have "d \<noteq> 0" using assms by auto
  then have "(r + d * q) div d = q + r div d" by (rule div_mult_self2)
  moreover have "r div d = 0" using assms by (rule div_pos_pos_trivial)
  ultimately show ?thesis by (simp add: add.commute)
qed

text \<open>
  A zone of one fixed offset: the step to the next day is 24 hours, it lands on the next
  calendar day, and the calendar day never goes back.
\<close>

lemma fixedZone_next_day:
  "localDayAt (fixedZone tz) (addOneDay (fixedZone tz) t) = localDayAt (fixedZone tz) t + 1"
proof -
  have "(t + tz * 60000 + msPerDay) div msPerDay = (t + tz * 60000) div msPerDay + 1"
    by (simp add: msPerDay_def)
  then show ?thesis
    by (simp add: localDayAt_def localDay_def addOneDay_def fixedZone_def algebra_simps)
qed

lemma fixedZone_mono:
  assumes "t \<le> t'"
  shows "localDayAt (fixedZone tz) t \<le> localDayAt (fixedZone tz) t'"
proof -
  have "t + tz * 60000 \<le> t' + tz * 60000" using assms by simp
  then have "(t + tz * 60000) div msPerDay \<le> (t' + tz * 60000) div msPerDay"
    by (intro zdiv_mono1) (simp_all add: msPerDay_def)
  then show ?thesis by (simp add: localDayAt_def localDay_def fixedZone_def)
qed






lemma addOneDay_across_dst:
  "addOneDay newYork2024 1709985600000 = 1709985600000 + 23 * 3600000 \<and>
   addOneDay newYork2024 1730563200000 = 1730563200000 + 25 * 3600000 \<and>
   addOneDay (fixedZone tz) t = t + msPerDay"
  by (simp add: addOneDay_def newYork2024_def fixedZone_def msPerDay_def)



lemma sync_searches:
  assumes "sync cfg scfg z now identity authTest search dirs fs (Some s) (Some e) =
             Some (Inr (fs', acts, tr))"
  shows "\<exists>acc. syncDays cfg z search s e
                 \<lparr>searches = [], allActivities = [], allActivitiesByDate = []\<rparr> = Some (Inr acc) \<and>
               tr = searches acc \<and> acts = allActivities acc"
  using assms by (auto simp: sync_def split: sum.splits option.splits)





text \<open>
  Across the change of the clock in New York, from 9 March 2024, 07:00 to 11 March 2024,
  07:30 local time, the loop searches three days, though the range is shorter than 48
  hours.
\<close>

lemma syncDays_across_dst:
  "syncDays
     \<lparr>minMessageLength = 10, excludeChannels = [''random'', ''general''],
      excludeChannelPatterns = [''test-*'', ''temp-*''], trackDMs = True\<rparr>
     newYork2024 noMatches 1709985600000 1710156600000
     \<lparr>searches = [], allActivities = [], allActivitiesByDate = []\<rparr> =
     Some (Inr \<lparr>searches = [''2024-03-09'', ''2024-03-10'', ''2024-03-11''],
                allActivities = [], allActivitiesByDate = []\<rparr>) \<and>
   (1710156600000 - 1709985600000) div msPerDay + 1 = 2"
  by code_simp

subsection \<open>The week folder of a day\<close>

lemma localDay_localMidnight: "localDay tz (localMidnight tz n) = n"
  by (simp add: localDay_def localMidnight_def msPerDay_def)

lemma localMidnight_le_iff: "localMidnight tz n \<le> t \<longleftrightarrow> n \<le> localDay tz t"
proof -
  have "n \<le> (t + tz * 60000) div msPerDay \<longleftrightarrow> n * msPerDay \<le> t + tz * 60000"
    by (rule int_le_div_iff) (simp add: msPerDay_def)
  then show ?thesis by (auto simp: localMidnight_def localDay_def)
qed

lemma localMidnight_diff: "localMidnight tz a - localMidnight tz b = (a - b) * msPerDay"
  by (simp add: localMidnight_def algebra_simps)

lemma getDay_localMidnight: "getDay tz (localMidnight tz n) = (n + 4) mod 7"
  by (simp add: getDay_def localDay_localMidnight)

lemma civil_19737: "civil_from_days 19737 = (2024, 1, 15)"
  by code_simp

lemma days_2024: "days_from_civil 2024 1 1 = 19723" "days_from_civil 2025 1 1 = 20089"
  "days_from_civil 2024 1 15 = 19737"
  by code_simp+

lemma date_texts:
  "addLeadingZeros 2024 4 = ''2024''" "addLeadingZeros 1 2 = ''01''"
  "addLeadingZeros 15 2 = ''15''" "num_toString (Some 2024) = ''2024''"
  "padStart (num_toString (Some 3)) 2 CHR ''0'' = ''03''"
  by code_simp+

lemma week_of_day_19737:
  assumes "localDay tz t = 19737"
  shows "getYear tz (Some t) = Some 2024" and "getWeek tz 1 (Some t) = Some 3"
proof -
  show "getYear tz (Some t) = Some 2024"
    by (simp add: getYear_def getFullYear_def assms civil_19737)
  have sow: "startOfWeek tz 1 t = localMidnight tz 19737"
    by (simp add: startOfWeek_def getDay_def assms)
  have next_year: "startOfWeek tz 1 (localMidnight tz 20089) = localMidnight tz 20087"
    by (simp add: startOfWeek_def getDay_localMidnight localDay_localMidnight)
  have this_year: "startOfWeek tz 1 (localMidnight tz 19723) = localMidnight tz 19723"
    by (simp add: startOfWeek_def getDay_localMidnight localDay_localMidnight)
  have wy: "getWeekYear tz 1 t = 2024"
    by (simp add: getWeekYear_def getFullYear_def assms civil_19737 days_2024 next_year
        this_year localMidnight_le_iff)
  have sowy: "startOfWeekYear tz 1 t = localMidnight tz 19723"
    by (simp add: startOfWeekYear_def wy days_2024 this_year)
  show "getWeek tz 1 (Some t) = Some 3"
    by (simp add: getWeek_def sow sowy localMidnight_diff msPerDay_def msPerWeek_def)
qed

lemma format_of_day_19737:
  assumes "localDay tz t = 19737"
  shows "format tz (Some t) ''yyyy-MM-dd'' = Inr ''2024-01-15''"
  by (simp add: format_def format_yyyy_MM_dd_def getFullYear_def getMonth_def getDate_def assms
      civil_19737 date_texts)

text \<open>
  Claim C3. For a \<open>Date\<close> whose local calendar day is 15 January 2024, in any time
  zone, the daily journal path is \<open><outputDir>/daily/2024/week-03\<close>; with the date format
  \<open>yyyy-MM-dd\<close> and the path free, \<open>saveJournal\<close> writes the content to
  \<open><outputDir>/daily/2024/week-03/2024-01-15.md\<close>.
\<close>

theorem journal_path_2024_01_15:
  assumes day: "localDay tz t = days_from_civil 2024 1 15"
    and fmt: "dateFormat cfg = ''yyyy-MM-dd''"
    and dir: "ensureDir fs (outputDir cfg @ [''daily'', ''2024'', ''week-03'']) = Inr ()"
    and free: "\<not> pathBlocked fs (outputDir cfg @ [''daily'', ''2024'', ''week-03'', ''2024-01-15.md''])"
  shows "getDailyJournalPath cfg tz (Some t) = outputDir cfg @ [''daily'', ''2024'', ''week-03''] \<and>
         (\<exists>fs'. saveJournal cfg tz fs (Some t) content =
                  Inr (fs', outputDir cfg @ [''daily'', ''2024'', ''week-03'', ''2024-01-15.md'']) \<and>
                map_of fs' (outputDir cfg @ [''daily'', ''2024'', ''week-03'', ''2024-01-15.md'']) =
                  Some (TextFile content))"
proof -
  from day have d: "localDay tz t = 19737" by (simp add: days_2024)
  have path: "getDailyJournalPath cfg tz (Some t) = outputDir cfg @ [''daily'', ''2024'', ''week-03'']"
    by (simp add: getDailyJournalPath_def week_of_day_19737 [OF d] date_texts)
  let ?p = "outputDir cfg @ [''daily'', ''2024'', ''week-03'', ''2024-01-15.md'']"
  let ?fs' = "(?p, TextFile content) # filter (\<lambda>e. fst e \<noteq> ?p) fs"
  have w: "writeFile fs ?p (TextFile content) = Inr ?fs'"
    using free by (simp add: writeFile_Inr)
  have sj: "saveJournal cfg tz fs (Some t) content = Inr (?fs', ?p)"
    by (simp add: saveJournal_def Let_def fmt format_of_day_19737 [OF d] path dir w)
  have m: "map_of ?fs' ?p = Some (TextFile content)" by simp
  show ?thesis
    by (rule conjI [OF path]) (rule exI [of _ ?fs'], rule conjI [OF sj m])
qed


theorem journal_path_2024_01_15_witness:
  "localDay (- 300) 1705338000000 = days_from_civil 2024 1 15 \<and>
   getDailyJournalPath
     \<lparr>dataDir = [''data''], syncStateFile = [''data'', ''sync-state.json''],
      rawDataDir = [''data'', ''raw-data''], outputDir = [''data'', ''journals''],
      dateFormat = ''yyyy-MM-dd''\<rparr> (- 300) (Some 1705338000000) =
     [''data'', ''journals'', ''daily'', ''2024'', ''week-03''] \<and>
   (\<exists>fs'. saveJournal
            \<lparr>dataDir = [''data''], syncStateFile = [''data'', ''sync-state.json''],
             rawDataDir = [''data'', ''raw-data''], outputDir = [''data'', ''journals''],
             dateFormat = ''yyyy-MM-dd''\<rparr> (- 300) [] (Some 1705338000000) ''# Monday'' =
            Inr (fs', [''data'', ''journals'', ''daily'', ''2024'', ''week-03'', ''2024-01-15.md'']))"
proof -
  define cfg where "cfg = \<lparr>dataDir = [''data''], syncStateFile = [''data'', ''sync-state.json''],
      rawDataDir = [''data'', ''raw-data''], outputDir = [''data'', ''journals''],
      dateFormat = ''yyyy-MM-dd''\<rparr>"
  define t :: int where "t = 1705338000000"
  define fs :: fs where "fs = []"
  have h1: "localDay (- 300) t = days_from_civil 2024 1 15" unfolding t_def by code_simp
  have h2: "dateFormat cfg = ''yyyy-MM-dd''" by (simp add: cfg_def)
  have h3: "ensureDir fs (outputDir cfg @ [''daily'', ''2024'', ''week-03'']) = Inr ()"
    by (simp add: ensureDir_def fs_def)
  have h4: "\<not> pathBlocked fs (outputDir cfg @ [''daily'', ''2024'', ''week-03'', ''2024-01-15.md''])"
    by (simp add: pathBlocked_def fs_def)
  have o: "outputDir cfg = [''data'', ''journals'']" by (simp add: cfg_def)
  from journal_path_2024_01_15 [OF h1 h2 h3 h4, of "''# Monday''"]
  obtain fs' where
    p: "getDailyJournalPath cfg (- 300) (Some t) = outputDir cfg @ [''daily'', ''2024'', ''week-03'']" and
    sj: "saveJournal cfg (- 300) fs (Some t) ''# Monday'' =
           Inr (fs', outputDir cfg @ [''daily'', ''2024'', ''week-03'', ''2024-01-15.md''])"
    by (elim exE conjE)
  from sj have "\<exists>fs'. saveJournal cfg (- 300) fs (Some t) ''# Monday'' =
           Inr (fs', [''data'', ''journals'', ''daily'', ''2024'', ''week-03'', ''2024-01-15.md''])"
    unfolding o by (intro exI) simp
  moreover from p have "getDailyJournalPath cfg (- 300) (Some t) =
      [''data'', ''journals'', ''daily'', ''2024'', ''week-03'']" unfolding o by simp
  ultimately show ?thesis using h1 unfolding cfg_def t_def fs_def by (intro conjI)
qed

subsection \<open>Migration and the time zone\<close>

text \<open>
  The folder that the migration computes for \<open>2024-01-15.md\<close> depends on the time zone
  of the process: \<open>week-03\<close> at UTC and east of it, \<open>week-02\<close> west of it. A file in
  the output directory whose name matches neither pattern is not touched.
\<close>

lemma civil_19736: "civil_from_days 19736 = (2024, 1, 14)"
  by code_simp

lemma week_of_day_19736:
  assumes "localDay tz t = 19736"
  shows "getYear tz (Some t) = Some 2024" and "getWeek tz 1 (Some t) = Some 2"
proof -
  show "getYear tz (Some t) = Some 2024"
    by (simp add: getYear_def getFullYear_def assms civil_19736)
  have sow: "startOfWeek tz 1 t = localMidnight tz 19730"
    by (simp add: startOfWeek_def getDay_def assms)
  have next_year: "startOfWeek tz 1 (localMidnight tz 20089) = localMidnight tz 20087"
    by (simp add: startOfWeek_def getDay_localMidnight localDay_localMidnight)
  have this_year: "startOfWeek tz 1 (localMidnight tz 19723) = localMidnight tz 19723"
    by (simp add: startOfWeek_def getDay_localMidnight localDay_localMidnight)
  have wy: "getWeekYear tz 1 t = 2024"
    by (simp add: getWeekYear_def getFullYear_def assms civil_19736 days_2024 next_year
        this_year localMidnight_le_iff)
  have sowy: "startOfWeekYear tz 1 t = localMidnight tz 19723"
    by (simp add: startOfWeekYear_def wy days_2024 this_year)
  show "getWeek tz 1 (Some t) = Some 2"
    by (simp add: getWeek_def sow sowy localMidnight_diff msPerDay_def msPerWeek_def)
qed

lemma parse_2024_01_15: "parse_date_only ''2024-01-15'' = Some (19737 * msPerDay)"
  by code_simp

lemma folder_text: "padStart (num_toString (Some 2)) 2 CHR ''0'' = ''02''"
  by code_simp

lemma migration_folder_by_zone:
  assumes "- 1440 < tz" and "tz < 1440"
  shows "getDailyJournalPath cfg tz (parse_date_only ''2024-01-15'') =
           outputDir cfg @ [''daily'', ''2024'', if 0 \<le> tz then ''week-03'' else ''week-02'']"
proof (cases "0 \<le> tz")
  case True
  have "(msPerDay * 19737 + tz * 60000) div msPerDay = 19737"
    using True assms by (intro div_of_parts) (simp_all add: msPerDay_def)
  then have "localDay tz (19737 * msPerDay) = 19737"
    by (simp add: localDay_def mult.commute)
  from week_of_day_19737 [OF this] True show ?thesis
    by (simp add: getDailyJournalPath_def parse_2024_01_15 date_texts)
next
  case False
  have "(msPerDay * 19736 + (msPerDay + tz * 60000)) div msPerDay = 19736"
    using False assms by (intro div_of_parts) (simp_all add: msPerDay_def)
  then have "localDay tz (19737 * msPerDay) = 19736"
    by (simp add: localDay_def msPerDay_def)
  from week_of_day_19736 [OF this] False show ?thesis
    by (simp add: getDailyJournalPath_def parse_2024_01_15 date_texts folder_text)
qed

lemma map_of_rekey:
  assumes "\<And>q. g q = p \<longleftrightarrow> q = p"
  shows "map_of (map (\<lambda>e. (g (fst e), snd e)) fs) p = map_of fs p"
proof -
  have 1: "g q = p \<longleftrightarrow> q = p" for q
    using assms by simp
  have 2: "p = g q \<longleftrightarrow> q = p" for q
    using 1 [of q] by (simp add: eq_commute)
  show ?thesis by (induction fs) (simp_all add: 1 2)
qed

lemma move_preserves:
  assumes "move fs src dest = Inr fs'" and "\<not> is_prefix src p" and "\<not> is_prefix dest p"
  shows "map_of fs' p = map_of fs p"
proof -
  let ?g = "\<lambda>q. if is_prefix src q then dest @ drop (length src) q else q"
  from assms(1) have fs': "fs' = map (\<lambda>e. (?g (fst e), snd e)) fs"
    by (simp add: move_def split: if_splits)
  have "?g q = p \<longleftrightarrow> q = p" for q
    using assms(2,3) by (auto simp: is_prefix_def)
  then show ?thesis unfolding fs' by (rule map_of_rekey)
qed

lemma migrateJournal_preserves:
  assumes "fileName \<noteq> name"
  shows "map_of (fst (migrateJournal cfg tz fileName st)) (outputDir cfg @ [name]) =
         map_of (fst st) (outputDir cfg @ [name])"
proof -
  have a: "\<not> is_prefix (outputDir cfg @ [fileName]) (outputDir cfg @ [name])"
    using assms by (simp add: is_prefix_def)
  have b: "\<not> is_prefix (getDailyJournalPath cfg tz d @ [fileName]) (outputDir cfg @ [name])" for d
    by (simp add: is_prefix_def getDailyJournalPath_def Let_def)
  show ?thesis
    by (auto simp: migrateJournal_def Let_def move_preserves [OF _ a b]
        split: option.splits sum.splits)
qed

lemma migrateWeeklyReport_preserves:
  assumes "fileName \<noteq> name"
  shows "map_of (fst (migrateWeeklyReport cfg tz fileName st)) (outputDir cfg @ [name]) =
         map_of (fst st) (outputDir cfg @ [name])"
proof -
  have a: "\<not> is_prefix (outputDir cfg @ [fileName]) (outputDir cfg @ [name])"
    using assms by (simp add: is_prefix_def)
  have b: "\<not> is_prefix (getReportPath cfg tz ''weekly'' d fileName) (outputDir cfg @ [name])" for d
    by (simp add: is_prefix_def getReportPath_def Let_def)
  show ?thesis
    by (auto simp: migrateWeeklyReport_def Let_def move_preserves [OF _ a b]
        split: option.splits sum.splits)
qed

lemma fold_preserves:
  assumes "\<And>f st. f \<in> set fileNames \<Longrightarrow> map_of (fst (step f st)) p = map_of (fst st) p"
  shows "map_of (fst (fold step fileNames st)) p = map_of (fst st) p"
  using assms by (induction fileNames arbitrary: st) simp_all

lemma migrate_lists_directory:
  "dirPresent dirs fs (outputDir cfg) \<Longrightarrow> \<exists>r. migrateExistingJournals cfg tz dirs fs = Inr r"
  by (simp add: migrateExistingJournals_def readdir_def Let_def)

lemma migrate_leaves_other_files:
  assumes "dailyMatch name = None"
    and "\<not> (js_startsWith name ''weekly-report-'' \<and> js_endsWith name ''.md'')"
    and "migrateExistingJournals cfg tz dirs fs = Inr r"
  shows "map_of (fst r) (outputDir cfg @ [name]) = map_of fs (outputDir cfg @ [name])"
proof -
  let ?p = "outputDir cfg @ [name]"
  have j: "map_of (fst (fold (migrateJournal cfg tz) js st)) ?p = map_of (fst st) ?p"
    if "\<And>f. f \<in> set js \<Longrightarrow> dailyMatch f \<noteq> None" for js st
  proof (rule fold_preserves)
    fix f st' assume mem: "f \<in> set js"
    from that [OF mem] assms(1) have "f \<noteq> name" by auto
    then show "map_of (fst (migrateJournal cfg tz f st')) ?p = map_of (fst st') ?p"
      by (rule migrateJournal_preserves)
  qed
  have w: "map_of (fst (fold (migrateWeeklyReport cfg tz) ws st)) ?p = map_of (fst st) ?p"
    if "\<And>f. f \<in> set ws \<Longrightarrow> js_startsWith f ''weekly-report-'' \<and> js_endsWith f ''.md''"
    for ws st
  proof (rule fold_preserves)
    fix f st' assume mem: "f \<in> set ws"
    from that [OF mem] assms(2) have "f \<noteq> name" by auto
    then show "map_of (fst (migrateWeeklyReport cfg tz f st')) ?p = map_of (fst st') ?p"
      by (rule migrateWeeklyReport_preserves)
  qed
  from assms(3) obtain files where
    r: "r = fold (migrateWeeklyReport cfg tz)
              (filter (\<lambda>file. js_startsWith file ''weekly-report-'' \<and> js_endsWith file ''.md'')
                 files)
              (fold (migrateJournal cfg tz)
                 (filter (\<lambda>file. js_endsWith file ''.md'' \<and> dailyMatch file \<noteq> None \<and>
                                 \<not> js_startsWith file ''weekly-report-'' \<and>
                                 \<not> js_startsWith file ''monthly-report-'' \<and>
                                 \<not> js_startsWith file ''quarterly-report-'') files)
                 (fs, 0))"
    by (auto simp: migrateExistingJournals_def Let_def split: sum.splits)
  show ?thesis
    unfolding r by (subst w, simp, subst j, simp_all)
qed

text \<open>
  Claim C6 does not hold west of UTC. \<open>new Date('2024-01-15')\<close> is UTC midnight, which
  at UTC-5 is the evening of Sunday, 14 January, in week 2: the migration moves
  \<open>2024-01-15.md\<close> into \<open>daily/2024/week-02\<close>, and leaves \<open>notes.md\<close> in place.
  \<open>getJournal\<close> for 15 January (local noon) found the journal before the migration, and
  does not find it afterwards, since it looks in \<open>week-03\<close>.
\<close>

theorem migrate_west_of_utc:
  "migrateExistingJournals
     \<lparr>dataDir = [''data''], syncStateFile = [''data'', ''sync-state.json''],
      rawDataDir = [''data'', ''raw-data''], outputDir = [''data'', ''journals''],
      dateFormat = ''yyyy-MM-dd''\<rparr> (- 300) []
     [([''data'', ''journals'', ''2024-01-15.md''], TextFile ''Monday''),
      ([''data'', ''journals'', ''notes.md''], TextFile ''notes'')] =
     Inr ([([''data'', ''journals'', ''daily'', ''2024'', ''week-02'', ''2024-01-15.md''],
            TextFile ''Monday''),
           ([''data'', ''journals'', ''notes.md''], TextFile ''notes'')], 1) \<and>
   getJournal
     \<lparr>dataDir = [''data''], syncStateFile = [''data'', ''sync-state.json''],
      rawDataDir = [''data'', ''raw-data''], outputDir = [''data'', ''journals''],
      dateFormat = ''yyyy-MM-dd''\<rparr> (- 300)
     [([''data'', ''journals'', ''2024-01-15.md''], TextFile ''Monday''),
      ([''data'', ''journals'', ''notes.md''], TextFile ''notes'')]
     (Some 1705338000000) = Some (TextFile ''Monday'') \<and>
   getJournal
     \<lparr>dataDir = [''data''], syncStateFile = [''data'', ''sync-state.json''],
      rawDataDir = [''data'', ''raw-data''], outputDir = [''data'', ''journals''],
      dateFormat = ''yyyy-MM-dd''\<rparr> (- 300)
     [([''data'', ''journals'', ''daily'', ''2024'', ''week-02'', ''2024-01-15.md''],
        TextFile ''Monday''),
       ([''data'', ''journals'', ''notes.md''], TextFile ''notes'')]
     (Some 1705338000000) = None \<and>
   format (- 300) (Some 1705338000000) ''yyyy-MM-dd'' = Inr ''2024-01-15''"
  by code_simp

text \<open>At UTC the same migration moves the file into \<open>week-03\<close>.\<close>

lemma migrate_utc:
  "migrateExistingJournals
     \<lparr>dataDir = [''data''], syncStateFile = [''data'', ''sync-state.json''],
      rawDataDir = [''data'', ''raw-data''], outputDir = [''data'', ''journals''],
      dateFormat = ''yyyy-MM-dd''\<rparr> 0 []
     [([''data'', ''journals'', ''2024-01-15.md''], TextFile ''Monday''),
      ([''data'', ''journals'', ''notes.md''], TextFile ''notes'')] =
     Inr ([([''data'', ''journals'', ''daily'', ''2024'', ''week-03'', ''2024-01-15.md''],
            TextFile ''Monday''),
           ([''data'', ''journals'', ''notes.md''], TextFile ''notes'')], 1)"
  by code_simp

end
